theory Spec2Isabelle
  imports Main "HOL-Library.Word"
begin

unbundle bit_operations_syntax

section \<open>Machine integers\<close>

text \<open>
  Go's \<open>uint8\<close>, \<open>uint16\<close>, \<open>uint32\<close> and \<open>uint64\<close> are words of that width:
  \<open>+\<close> and \<open>-\<close> wrap, \<open>>>\<close> is \<open>drop_bit\<close>, \<open><<\<close> is \<open>push_bit\<close>, \<open>&^\<close> is
  \<open>AND NOT\<close>. Go's \<open>int\<close> (64 bits on every supported platform) only counts
  dots, scanlines and cycles here and is an \<open>int\<close>.  A conversion \<open>uint16(x)\<close>
  of a narrower value is \<open>ucast\<close>, \<open>uint8(n)\<close> of an \<open>int\<close> is \<open>of_nat\<close> or
  \<open>of_int\<close> (truncation to the low eight bits).
\<close>

type_synonym u8 = "8 word"
type_synonym u16 = "16 word"
type_synonym u32 = "32 word"
type_synonym u64 = "64 word"

text \<open>
  Go's \<open>/\<close> and \<open>%\<close> on \<open>int\<close> truncate towards zero.
\<close>

definition quot :: "int \<Rightarrow> int \<Rightarrow> int" where
  "quot a b = sgn a * sgn b * (\<bar>a\<bar> div \<bar>b\<bar>)"

definition rem :: "int \<Rightarrow> int \<Rightarrow> int" where
  "rem a b = a - b * quot a b"

section \<open>Cartridge data and mappers (package mapper)\<close>

text \<open>
  \<open>CartridgeData\<close> holds four Go slices.  A slice is a list; an index is in range
  when it is below the length, and the source's own bounds checks are kept.
\<close>

record CartridgeData =
  PRGROM :: "u8 list"
  CHRROM :: "u8 list"
  PRGRAM :: "u8 list"
  CHRRAM :: "u8 list"

subsection \<open>Mapper 0 (NROM)\<close>

record Mapper0 =
  m0_cartridge :: CartridgeData

definition NewMapper0 :: "CartridgeData \<Rightarrow> Mapper0" where
  "NewMapper0 d = \<lparr>m0_cartridge = d\<rparr>"

text \<open>\<open>func (m *Mapper0) ReadPRG(addr uint16) uint8\<close>\<close>

definition Mapper0_ReadPRG :: "Mapper0 \<Rightarrow> u16 \<Rightarrow> u8" where
  "Mapper0_ReadPRG m addr =
     (if addr \<ge> 0x8000 then
        (let addr1 = addr - 0x8000;
             addr2 = (if length (PRGROM (m0_cartridge m)) = 16384
                      then addr1 mod 16384 else addr1)
         in if unat addr2 < length (PRGROM (m0_cartridge m))
            then PRGROM (m0_cartridge m) ! unat addr2
            else 0)
      else if addr \<ge> 0x6000 \<and> length (PRGRAM (m0_cartridge m)) > 0 then
        (let addr1 = addr - 0x6000
         in if unat addr1 < length (PRGRAM (m0_cartridge m))
            then PRGRAM (m0_cartridge m) ! unat addr1
            else 0)
      else 0)"

text \<open>\<open>func (m *Mapper0) WritePRG(addr uint16, value uint8)\<close>\<close>

definition Mapper0_WritePRG :: "Mapper0 \<Rightarrow> u16 \<Rightarrow> u8 \<Rightarrow> Mapper0" where
  "Mapper0_WritePRG m addr val =
     (if addr \<ge> 0x6000 \<and> addr < 0x8000 \<and> length (PRGRAM (m0_cartridge m)) > 0 then
        (let addr1 = addr - 0x6000
         in if unat addr1 < length (PRGRAM (m0_cartridge m))
            then m\<lparr>m0_cartridge := (m0_cartridge m)
                    \<lparr>PRGRAM := (PRGRAM (m0_cartridge m))[unat addr1 := val]\<rparr>\<rparr>
            else m)
      else m)"

subsection \<open>Mappers 1, 2 and 3: state and constructors\<close>

record Mapper1 =
  m1_cartridge :: CartridgeData
  m1_shiftRegister :: u8
  m1_shiftCount :: u8
  m1_control :: u8
  m1_chrBank0 :: u8
  m1_chrBank1 :: u8
  m1_prgBank :: u8
  m1_prgMode :: u8
  m1_chrMode :: u8
  m1_mirroring :: u8

definition NewMapper1 :: "CartridgeData \<Rightarrow> Mapper1" where
  "NewMapper1 d =
     \<lparr>m1_cartridge = d, m1_shiftRegister = 0, m1_shiftCount = 0, m1_control = 0x0C,
      m1_chrBank0 = 0, m1_chrBank1 = 0, m1_prgBank = 0, m1_prgMode = 3, m1_chrMode = 0,
      m1_mirroring = 0\<rparr>"

record Mapper2 =
  m2_cartridge :: CartridgeData
  m2_prgBank :: u8
  m2_prgBankCount :: u8

definition NewMapper2 :: "CartridgeData \<Rightarrow> Mapper2" where
  "NewMapper2 d =
     \<lparr>m2_cartridge = d, m2_prgBank = 0,
      m2_prgBankCount = of_nat (length (PRGROM d) div 16384)\<rparr>"

record Mapper3 =
  m3_cartridge :: CartridgeData
  m3_chrBank :: u8
  m3_chrBankCount :: u8
  m3_busConflictMode :: u8

definition NewMapper3 :: "CartridgeData \<Rightarrow> Mapper3" where
  "NewMapper3 d =
     \<lparr>m3_cartridge = d, m3_chrBank = 0,
      m3_chrBankCount = (if length (CHRROM d) > 0
                         then of_nat (length (CHRROM d) div 8192) else 0),
      m3_busConflictMode = 1\<rparr>"

subsection \<open>Mapper 4 (MMC3)\<close>

text \<open>
  The fixed-size arrays \<open>bankRegisters [8]uint8\<close> and \<open>a12History [8]bool\<close> are
  functions of the index; the index \<open>bankSelect & 0x07\<close> that \<open>WritePRG\<close> uses
  is below 8.
\<close>

record Mapper4 =
  m4_data :: CartridgeData
  bankRegisters :: "nat \<Rightarrow> u8"
  bankSelect :: u8
  mirroringMode :: u8
  prgRAMProtect :: u8
  irqReloadValue :: u8
  irqCounter :: u8
  irqEnabled :: bool
  irqPending :: bool
  irqReloadFlag :: bool
  a12Low :: bool
  a12LowCounter :: int
  a12FilterPass :: bool
  a12History :: "nat \<Rightarrow> bool"
  a12HistoryPos :: int
  m2CycleCount :: int
  prgBankCount :: u8
  chrBankCount :: u8
  isSharpMMC3 :: bool

text \<open>
  \<open>func NewMapper4(data *CartridgeData) *Mapper4\<close>.  The loop over \<open>i = 0..5\<close>
  initialises the CHR bank registers; R6 and R7 are set before it.
\<close>

definition NewMapper4 :: "CartridgeData \<Rightarrow> Mapper4" where
  "NewMapper4 d =
     (let pbc = (of_nat (length (PRGROM d) div 8192) :: u8);
          cbc = (if length (CHRROM d) > 0 then of_nat (length (CHRROM d) div 1024)
                 else if length (CHRRAM d) > 0 then of_nat (length (CHRRAM d) div 1024)
                 else 8 :: u8)
      in \<lparr>m4_data = d,
          bankRegisters = (\<lambda>i.
             if i < 6 then (if cbc > 0 then of_nat (i mod unat cbc) else of_nat i)
             else if i = 6 \<and> pbc \<ge> 2 then pbc - 2
             else if i = 7 \<and> pbc \<ge> 2 then pbc - 1
             else 0),
          bankSelect = 0, mirroringMode = 0, prgRAMProtect = 0x80,
          irqReloadValue = 0, irqCounter = 0, irqEnabled = False, irqPending = False,
          irqReloadFlag = False, a12Low = True, a12LowCounter = 0,
          a12FilterPass = False, a12History = (\<lambda>i. False), a12HistoryPos = 0,
          m2CycleCount = 0, prgBankCount = pbc, chrBankCount = cbc,
          isSharpMMC3 = True\<rparr>)"

text \<open>
  \<open>func (m *Mapper4) WritePRG(addr uint16, value uint8)\<close>.  Two statements of the
  source can panic at run time and the result is \<open>None\<close> there: the slice store
  \<open>m.data.PRGRAM[addr-0x6000]\<close> when the PRG RAM is shorter than the offset, and
  \<open>value % m.prgBankCount\<close> when the PRG ROM has no 8 KiB bank (division by zero).
\<close>

definition Mapper4_WritePRG :: "Mapper4 \<Rightarrow> u16 \<Rightarrow> u8 \<Rightarrow> Mapper4 option" where
  "Mapper4_WritePRG m addr val =
     (if addr \<ge> 0x6000 \<and> addr \<le> 0x7FFF then
        (if length (PRGRAM (m4_data m)) > 0 \<and> prgRAMProtect m AND 0x80 \<noteq> 0
            \<and> prgRAMProtect m AND 0x40 = 0
         then (if unat (addr - 0x6000) < length (PRGRAM (m4_data m))
               then Some (m\<lparr>m4_data := (m4_data m)
                      \<lparr>PRGRAM := (PRGRAM (m4_data m))[unat (addr - 0x6000) := val]\<rparr>\<rparr>)
               else None)
         else Some m)
      else if addr \<ge> 0x8000 then
        (let sel = addr AND 0xE001 in
         if sel = 0x8000 then Some (m\<lparr>bankSelect := val\<rparr>)
         else if sel = 0x8001 then
           (let regIndex = bankSelect m AND 0x07 in
            if regIndex < 8 then
              (if regIndex \<ge> 6 then
                 (if prgBankCount m = 0 then None
                  else Some (m\<lparr>bankRegisters := (bankRegisters m)
                               (unat regIndex := val mod prgBankCount m)\<rparr>))
               else if chrBankCount m > 0 then
                 Some (m\<lparr>bankRegisters := (bankRegisters m)
                            (unat regIndex := val mod chrBankCount m)\<rparr>)
               else Some (m\<lparr>bankRegisters := (bankRegisters m)(unat regIndex := val)\<rparr>))
            else Some m)
         else if sel = 0xA000 then Some (m\<lparr>mirroringMode := val AND 1\<rparr>)
         else if sel = 0xA001 then Some (m\<lparr>prgRAMProtect := val\<rparr>)
         else if sel = 0xC000 then Some (m\<lparr>irqReloadValue := val\<rparr>)
         else if sel = 0xC001 then Some (m\<lparr>irqReloadFlag := True, irqCounter := 0\<rparr>)
         else if sel = 0xE000 then Some (m\<lparr>irqEnabled := False, irqPending := False\<rparr>)
         else if sel = 0xE001 then Some (m\<lparr>irqEnabled := True\<rparr>)
         else Some m)
      else Some m)"

text \<open>
  \<open>func (m *Mapper4) Step()\<close> clocks the IRQ counter.  It has two callers:
  \<open>NotifyA12\<close> below, and \<open>Cartridge.Step\<close>, which \<open>PPU.Step\<close> calls at the start
  of each visible scanline.
\<close>

definition Mapper4_Step :: "Mapper4 \<Rightarrow> Mapper4" where
  "Mapper4_Step m =
     (let m1 = (if irqReloadFlag m
                then m\<lparr>irqCounter := irqReloadValue m, irqReloadFlag := False\<rparr>
                else if irqCounter m = 0 then m\<lparr>irqCounter := irqReloadValue m\<rparr>
                else m\<lparr>irqCounter := irqCounter m - 1\<rparr>);
          shouldTriggerIRQ =
            (if isSharpMMC3 m1 then irqCounter m1 = 0 \<and> irqEnabled m1
             else irqCounter m1 = 0 \<and> irqEnabled m1 \<and> irqReloadValue m1 > 0)
      in if shouldTriggerIRQ then m1\<lparr>irqPending := True\<rparr> else m1)"

text \<open>
  The two loops of \<open>NotifyA12\<close>.  The first counts the low entries of the history
  from index 0 up to the first high one (\<open>for i := 0; i < 8; i++\<close>, with its
  \<open>break\<close>); the last argument is the number of iterations left.  The second is
  \<open>for i := 1; i < 4; i++\<close> over \<open>prevPos := (m.a12HistoryPos - i + 8) % 8\<close>, where
  \<open>a12HistoryPos\<close> is the position already advanced.
\<close>

fun consecutiveLow :: "(nat \<Rightarrow> bool) \<Rightarrow> nat \<Rightarrow> nat \<Rightarrow> int" where
  "consecutiveLow h i 0 = 0"
| "consecutiveLow h i (Suc n) = (if \<not> h i then 1 + consecutiveLow h (i + 1) n else 0)"

fun validTransition :: "(nat \<Rightarrow> bool) \<Rightarrow> int \<Rightarrow> int \<Rightarrow> nat \<Rightarrow> bool" where
  "validTransition h pos i 0 = True"
| "validTransition h pos i (Suc n) =
     (if h (nat (rem (pos - i + 8) 8)) then False else validTransition h pos (i + 1) n)"

text \<open>
  \<open>func (m *Mapper4) NotifyA12(chrAddr uint16, renderingEnabled bool)\<close>.  The store
  \<open>m.a12History[m.a12HistoryPos] = a12High\<close> panics for a position outside
  \<open>0..7\<close> (\<open>None\<close>); the positions \<open>prevPos\<close> of the second loop are within
  \<open>0..7\<close> whenever the store went through.  \<open>m2CycleCount\<close> and \<open>a12LowCounter\<close>
  are only ever written, so that their wrap-around as Go \<open>int\<close>s is left out.
\<close>

definition Mapper4_NotifyA12 :: "Mapper4 \<Rightarrow> u16 \<Rightarrow> bool \<Rightarrow> Mapper4 option" where
  "Mapper4_NotifyA12 m chrAddr renderingEnabled =
     (if \<not> renderingEnabled then Some m
      else
        (let a12High = (chrAddr AND 0x1000 \<noteq> 0);
             m1 = m\<lparr>m2CycleCount := m2CycleCount m + 1\<rparr>
         in if a12HistoryPos m1 < 0 \<or> a12HistoryPos m1 \<ge> 8 then None
            else
              (let m2 = m1\<lparr>a12History := (a12History m1)(nat (a12HistoryPos m1) := a12High)\<rparr>;
                   m3 = m2\<lparr>a12HistoryPos := rem (a12HistoryPos m2 + 1) 8\<rparr>;
                   m4 = (if \<not> a12High then
                           (let m5 = m3\<lparr>a12LowCounter := a12LowCounter m3 + 1\<rparr>;
                                consecutiveLowCount = consecutiveLow (a12History m5) 0 8
                            in if consecutiveLowCount \<ge> 6 then m5\<lparr>a12FilterPass := True\<rparr>
                               else m5)
                         else
                           (let m5 = (if a12Low m3 \<and> a12FilterPass m3 then
                                        (if validTransition (a12History m3) (a12HistoryPos m3) 1 3
                                         then Mapper4_Step m3 else m3)
                                      else m3)
                            in m5\<lparr>a12LowCounter := 0, a12FilterPass := False\<rparr>))
               in Some (m4\<lparr>a12Low := (\<not> a12High)\<rparr>))))"

definition Mapper4_IsIRQPending :: "Mapper4 \<Rightarrow> bool" where
  "Mapper4_IsIRQPending m = irqPending m"

definition Mapper4_ClearIRQ :: "Mapper4 \<Rightarrow> Mapper4" where
  "Mapper4_ClearIRQ m = m\<lparr>irqPending := False\<rparr>"

subsection \<open>The mapper interface and its factory\<close>

text \<open>
  \<open>mapper.Mapper\<close> is an interface; the five types that implement it are the five
  variants.  \<open>NewMapper\<close> returns the error \<open>unsupported mapper: n\<close> for every
  other number.
\<close>

datatype Mapper = M0 Mapper0 | M1 Mapper1 | M2 Mapper2 | M3 Mapper3 | M4 Mapper4

datatype mapper_error = UnsupportedMapper u8

definition NewMapper :: "u8 \<Rightarrow> CartridgeData \<Rightarrow> mapper_error + Mapper" where
  "NewMapper mapperNumber d =
     (if mapperNumber = 0 then Inr (M0 (NewMapper0 d))
      else if mapperNumber = 1 then Inr (M1 (NewMapper1 d))
      else if mapperNumber = 2 then Inr (M2 (NewMapper2 d))
      else if mapperNumber = 3 then Inr (M3 (NewMapper3 d))
      else if mapperNumber = 4 then Inr (M4 (NewMapper4 d))
      else Inl (UnsupportedMapper mapperNumber))"

section \<open>The cartridge and the iNES loader (package cartridge)\<close>

record iNESHeader =
  Magic :: "u8 list"
  PRGROMSize :: u8
  CHRROMSize :: u8
  Flags6 :: u8
  Flags7 :: u8
  Flags8 :: u8
  Flags9 :: u8
  Flags10 :: u8
  Padding :: "u8 list"

datatype MirroringMode =
  MirroringHorizontal | MirroringVertical | MirroringFourScreen
  | MirroringSingleScreenA | MirroringSingleScreenB

text \<open>
  The field \<open>Mapper\<close> has the interface type \<open>mapper.Mapper\<close> and may be nil, so
  the record is polymorphic in the mapper's state; the loader fills it with a
  \<^typ>\<open>Mapper\<close>.  The loader hands the same four slices to the mapper's
  \<open>CartridgeData\<close>; the mapper's copy is the one every read and write goes
  through.
\<close>

record 'm Cartridge =
  c_PRGROM :: "u8 list"
  c_CHRROM :: "u8 list"
  c_PRGRAM :: "u8 list"
  c_CHRRAM :: "u8 list"
  c_Header :: iNESHeader
  c_Mapper :: "'m option"
  c_Mirroring :: MirroringMode

datatype load_error =
  FailedToReadHeader | InvalidMagic | FailedToReadTrainer | FailedToReadPRGROM
  | FailedToReadCHRROM | FailedToCreateMapper mapper_error

text \<open>
  The reader is the sequence of bytes still to be read (the tests read from a
  \<open>bytes.Reader\<close>).  \<open>io.ReadFull(reader, buf)\<close> fills \<open>buf\<close> or fails when fewer
  than \<open>len(buf)\<close> bytes are left; reading zero bytes succeeds.
\<close>

definition ReadFull :: "nat \<Rightarrow> u8 list \<Rightarrow> (u8 list \<times> u8 list) option" where
  "ReadFull n r = (if n \<le> length r then Some (take n r, drop n r) else None)"

definition readHeader :: "u8 list \<Rightarrow> (iNESHeader \<times> u8 list) option" where
  "readHeader r =
     (case ReadFull 16 r of
        None \<Rightarrow> None
      | Some (headerBytes, r') \<Rightarrow>
          Some (\<lparr>Magic = take 4 headerBytes,
                 PRGROMSize = headerBytes ! 4, CHRROMSize = headerBytes ! 5,
                 Flags6 = headerBytes ! 6, Flags7 = headerBytes ! 7,
                 Flags8 = headerBytes ! 8, Flags9 = headerBytes ! 9,
                 Flags10 = headerBytes ! 10,
                 Padding = take 5 (drop 11 headerBytes)\<rparr>, r'))"

text \<open>The mapper number, as both places of \<open>LoadFromReader\<close> compute it.\<close>

definition mapperNumber :: "iNESHeader \<Rightarrow> u8" where
  "mapperNumber h = (drop_bit 4 (Flags6 h)) OR (Flags7 h AND 0xF0)"

definition LoadFromReader :: "u8 list \<Rightarrow> load_error + Mapper Cartridge" where
  "LoadFromReader reader =
     (case readHeader reader of
        None \<Rightarrow> Inl FailedToReadHeader
      | Some (h, r1) \<Rightarrow>
        if Magic h \<noteq> [0x4E, 0x45, 0x53, 0x1A] then Inl InvalidMagic
        else
          (case (if Flags6 h AND 0x04 \<noteq> 0 then ReadFull 512 r1 else Some ([], r1)) of
             None \<Rightarrow> Inl FailedToReadTrainer
           | Some (trainer, r2) \<Rightarrow>
             (case ReadFull (unat (PRGROMSize h) * 16384) r2 of
                None \<Rightarrow> Inl FailedToReadPRGROM
              | Some (prg, r3) \<Rightarrow>
                (let chrSize = unat (CHRROMSize h) * 8192 in
                 case (if chrSize > 0
                       then (case ReadFull chrSize r3 of
                               None \<Rightarrow> None
                             | Some (chr, r4) \<Rightarrow> Some (chr, []))
                       else Some ([], replicate (if mapperNumber h = 4 then 32768 else 8192) 0)) of
                   None \<Rightarrow> Inl FailedToReadCHRROM
                 | Some (chr, chrram) \<Rightarrow>
                   (let prgram = (if Flags6 h AND 0x02 \<noteq> 0 then replicate 32768 0 else []);
                        mirroring = (if Flags6 h AND 0x08 \<noteq> 0 then MirroringFourScreen
                                     else if Flags6 h AND 0x01 \<noteq> 0 then MirroringVertical
                                     else MirroringHorizontal);
                        mapperData = \<lparr>PRGROM = prg, CHRROM = chr, PRGRAM = prgram,
                                      CHRRAM = chrram\<rparr>
                    in case NewMapper (mapperNumber h) mapperData of
                         Inl e \<Rightarrow> Inl (FailedToCreateMapper e)
                       | Inr mp \<Rightarrow>
                           Inr \<lparr>c_PRGROM = prg, c_CHRROM = chr, c_PRGRAM = prgram,
                                c_CHRRAM = chrram, c_Header = h, c_Mapper = Some mp,
                                c_Mirroring = mirroring\<rparr>)))))"

text \<open>
  \<open>func (c *Cartridge) ReadPRG\<close> and \<open>WritePRG\<close> forward to the mapper when there
  is one.  The mapper's method is the first argument: the call is dispatched
  through the interface.

  \<open>LoadFromReader\<close> gives the mapper the cartridge's own slices, so that a store
  the mapper makes into its \<open>PRGRAM\<close> or \<open>CHRRAM\<close> is a store into the
  cartridge's.  The second argument of \<open>Cartridge_WritePRG\<close> is the mapper's
  \<open>CartridgeData\<close> when its slices are the cartridge's, and \<open>None\<close> for a mapper
  built on arrays of its own; in the first case the cartridge's two fields follow
  the mapper's after the write.
\<close>

definition Cartridge_ReadPRG ::
  "('m \<Rightarrow> u16 \<Rightarrow> u8 \<times> 'm) \<Rightarrow> 'm Cartridge \<Rightarrow> u16 \<Rightarrow> u8 \<times> 'm Cartridge" where
  "Cartridge_ReadPRG mapperReadPRG c addr =
     (case c_Mapper c of
        Some m \<Rightarrow> (let (v, m') = mapperReadPRG m addr in (v, c\<lparr>c_Mapper := Some m'\<rparr>))
      | None \<Rightarrow> (0, c))"

definition Cartridge_WritePRG ::
  "('m \<Rightarrow> u16 \<Rightarrow> u8 \<Rightarrow> 'm) \<Rightarrow> ('m \<Rightarrow> CartridgeData option)
     \<Rightarrow> 'm Cartridge \<Rightarrow> u16 \<Rightarrow> u8 \<Rightarrow> 'm Cartridge" where
  "Cartridge_WritePRG mapperWritePRG sharedData c addr val =
     (case c_Mapper c of
        Some m \<Rightarrow>
          (let m' = mapperWritePRG m addr val in
           case sharedData m' of
             Some d \<Rightarrow> c\<lparr>c_Mapper := Some m', c_PRGRAM := PRGRAM d, c_CHRRAM := CHRRAM d\<rparr>
           | None \<Rightarrow> c\<lparr>c_Mapper := Some m'\<rparr>)
      | None \<Rightarrow> c)"

section \<open>The controller port (package input)\<close>

record Controller =
  buttons :: u8
  strobe :: bool
  index :: u8
  ButtonA :: bool
  ButtonB :: bool
  ButtonSelect :: bool
  ButtonStart :: bool
  ButtonUp :: bool
  ButtonDown :: bool
  ButtonLeft :: bool
  ButtonRight :: bool


text \<open>
  \<open>func (c *Controller) SetButton(controller int, button int, pressed bool)\<close>.
  \<open>uint8(1 << button)\<close> with a variable shift count panics for a negative count
  (\<open>None\<close>) and is 0 from 8 on.
\<close>

definition SetButton :: "Controller \<Rightarrow> int \<Rightarrow> int \<Rightarrow> bool \<Rightarrow> Controller option" where
  "SetButton c controller button pressed =
     (if controller \<noteq> 0 then Some c
      else if button < 0 then None
      else
        (let buttonMask = (push_bit (nat button) 1 :: u8);
             b = (if pressed then buttons c OR buttonMask
                  else buttons c AND NOT buttonMask)
         in Some (c\<lparr>buttons := b,
                    ButtonA := b AND 0x01 \<noteq> 0, ButtonB := b AND 0x02 \<noteq> 0,
                    ButtonSelect := b AND 0x04 \<noteq> 0, ButtonStart := b AND 0x08 \<noteq> 0,
                    ButtonUp := b AND 0x10 \<noteq> 0, ButtonDown := b AND 0x20 \<noteq> 0,
                    ButtonLeft := b AND 0x40 \<noteq> 0, ButtonRight := b AND 0x80 \<noteq> 0\<rparr>)))"



section \<open>The APU's register reads (package apu)\<close>



section \<open>The CPU bus (package memory)\<close>

text \<open>
  \<open>Memory\<close> reaches the PPU, the APU, the cartridge and the controller through
  four interface-typed fields, each of which may be nil.  The record is
  polymorphic in the four device states; the methods of the interfaces are the
  fields of \<open>Devices\<close>, passed to every bus function.  A method that returns a
  value also returns the device's new state, since it may change it.
  \<open>RAM [2048]uint8\<close> and \<open>HighMem [0xA000]uint8\<close> are functions of the index; the
  source masks or checks every index it uses.
\<close>

record ('p, 'a, 'c, 'i) Memory =
  RAM :: "u16 \<Rightarrow> u8"
  HighMem :: "u16 \<Rightarrow> u8"
  mem_PPU :: "'p option"
  mem_APU :: "'a option"
  mem_Cartridge :: "'c option"
  mem_Input :: "'i option"

record ('p, 'a, 'c, 'i) Devices =
  ppuReadRegister :: "'p \<Rightarrow> u16 \<Rightarrow> u8 \<times> 'p"
  ppuWriteRegister :: "'p \<Rightarrow> u16 \<Rightarrow> u8 \<Rightarrow> 'p"
  apuReadRegister :: "'a \<Rightarrow> u16 \<Rightarrow> u8 \<times> 'a"
  apuWriteRegister :: "'a \<Rightarrow> u16 \<Rightarrow> u8 \<Rightarrow> 'a"
  cartReadPRG :: "'c \<Rightarrow> u16 \<Rightarrow> u8 \<times> 'c"
  cartWritePRG :: "'c \<Rightarrow> u16 \<Rightarrow> u8 \<Rightarrow> 'c"
  inputRead :: "'i \<Rightarrow> u8 \<times> 'i"
  inputWrite :: "'i \<Rightarrow> u8 \<Rightarrow> 'i"

definition Memory_New :: "('p, 'a, 'c, 'i) Memory" where
  "Memory_New =
     \<lparr>RAM = (\<lambda>_. 0), HighMem = (\<lambda>_. 0), mem_PPU = None, mem_APU = None,
      mem_Cartridge = None, mem_Input = None\<rparr>"

text \<open>\<open>func (m *Memory) Read(addr uint16) uint8\<close>\<close>

definition Memory_Read ::
  "('p, 'a, 'c, 'i) Devices \<Rightarrow> ('p, 'a, 'c, 'i) Memory \<Rightarrow> u16
     \<Rightarrow> u8 \<times> ('p, 'a, 'c, 'i) Memory" where
  "Memory_Read dv m addr =
     (if addr < 0x2000 then (RAM m (addr AND 0x7FF), m)
      else if addr \<ge> 0x6000 then
        (case mem_Cartridge m of
           Some c \<Rightarrow> (let (v, c') = cartReadPRG dv c addr in (v, m\<lparr>mem_Cartridge := Some c'\<rparr>))
         | None \<Rightarrow>
             (let idx = addr - 0x6000
              in if idx \<ge> 0xA000 then (0, m) else (HighMem m idx, m)))
      else if addr < 0x4000 then
        (case mem_PPU m of
           Some p \<Rightarrow> (let (v, p') = ppuReadRegister dv p (0x2000 + (addr AND 0x7))
                      in (v, m\<lparr>mem_PPU := Some p'\<rparr>))
         | None \<Rightarrow> (0, m))
      else if addr = 0x4016 then
        (case mem_Input m of
           Some i \<Rightarrow> (let (v, i') = inputRead dv i in (v, m\<lparr>mem_Input := Some i'\<rparr>))
         | None \<Rightarrow> (0, m))
      else if addr = 0x4017 then
        (case mem_APU m of
           Some a \<Rightarrow> (let (v, a') = apuReadRegister dv a addr in (v, m\<lparr>mem_APU := Some a'\<rparr>))
         | None \<Rightarrow> (0, m))
      else if addr < 0x4020 then
        (case mem_APU m of
           Some a \<Rightarrow> (let (v, a') = apuReadRegister dv a addr in (v, m\<lparr>mem_APU := Some a'\<rparr>))
         | None \<Rightarrow> (0, m))
      else (0, m))"

text \<open>
  \<open>func (m *Memory) performOAMDMA(page uint8)\<close>: 256 bus reads from
  \<open>page << 8\<close>, each followed by a write to OAMDATA (\<open>$2004\<close>).  The loop
  \<open>for i := 0; i < 256; i++\<close> is a recursion on the number of iterations left.
\<close>

fun OAMDMA_loop ::
  "('p, 'a, 'c, 'i) Devices \<Rightarrow> u16 \<Rightarrow> nat \<Rightarrow> nat \<Rightarrow> ('p, 'a, 'c, 'i) Memory
     \<Rightarrow> ('p, 'a, 'c, 'i) Memory" where
  "OAMDMA_loop dv baseAddr i 0 m = m"
| "OAMDMA_loop dv baseAddr i (Suc n) m =
     (let (val, m1) = Memory_Read dv m (baseAddr + of_nat i);
          m2 = (case mem_PPU m1 of
                  Some p \<Rightarrow> m1\<lparr>mem_PPU := Some (ppuWriteRegister dv p 0x2004 val)\<rparr>
                | None \<Rightarrow> m1)
      in OAMDMA_loop dv baseAddr (Suc i) n m2)"

definition performOAMDMA ::
  "('p, 'a, 'c, 'i) Devices \<Rightarrow> ('p, 'a, 'c, 'i) Memory \<Rightarrow> u8 \<Rightarrow> ('p, 'a, 'c, 'i) Memory" where
  "performOAMDMA dv m page = OAMDMA_loop dv (push_bit 8 (ucast page)) 0 256 m"

text \<open>\<open>func (m *Memory) Write(addr uint16, value uint8)\<close>: it returns nothing.\<close>

definition Memory_Write ::
  "('p, 'a, 'c, 'i) Devices \<Rightarrow> ('p, 'a, 'c, 'i) Memory \<Rightarrow> u16 \<Rightarrow> u8
     \<Rightarrow> ('p, 'a, 'c, 'i) Memory" where
  "Memory_Write dv m addr val =
     (if addr < 0x2000 then m\<lparr>RAM := (RAM m)(addr mod 0x800 := val)\<rparr>
      else if addr < 0x4000 then
        (case mem_PPU m of
           Some p \<Rightarrow> m\<lparr>mem_PPU := Some (ppuWriteRegister dv p (0x2000 + (addr AND 0x7)) val)\<rparr>
         | None \<Rightarrow> m)
      else if addr = 0x4014 then performOAMDMA dv m val
      else if addr = 0x4016 then
        (case mem_Input m of
           Some i \<Rightarrow> m\<lparr>mem_Input := Some (inputWrite dv i val)\<rparr>
         | None \<Rightarrow> m)
      else if addr < 0x4020 then
        (case mem_APU m of
           Some a \<Rightarrow> m\<lparr>mem_APU := Some (apuWriteRegister dv a addr val)\<rparr>
         | None \<Rightarrow> m)
      else if addr \<ge> 0x6000 then
        (case mem_Cartridge m of
           Some c \<Rightarrow> m\<lparr>mem_Cartridge := Some (cartWritePRG dv c addr val)\<rparr>
         | None \<Rightarrow>
             (let idx = addr - 0x6000
              in if idx \<ge> 0xA000 then m else m\<lparr>HighMem := (HighMem m)(idx := val)\<rparr>))
      else m)"

section \<open>The PPU: state, palette and registers (package ppu)\<close>

subsection \<open>Palette RAM\<close>

text \<open>
  \<open>PaletteRAM [32]uint8\<close> is a function of the index; \<open>ReadPalette\<close> and
  \<open>WritePalette\<close> mask the index with \<open>0x1F\<close> first.
\<close>

record PaletteManager =
  PaletteRAM :: "u8 \<Rightarrow> u8"
  Emphasis :: u8

definition NewPaletteManager :: PaletteManager where
  "NewPaletteManager =
     \<lparr>PaletteRAM = (\<lambda>i. if i = 0 then 0x0F else if i = 1 then 0x30
                          else if i = 2 then 0x10 else if i = 3 then 0x00
                          else if i < 32 then 0x30 else 0),
      Emphasis = 0\<rparr>"

definition paletteMirror :: "u8 \<Rightarrow> u8" where
  "paletteMirror addr =
     (if addr = 0x10 then 0x00 else if addr = 0x14 then 0x04
      else if addr = 0x18 then 0x08 else if addr = 0x1C then 0x0C else addr)"

text \<open>\<open>func (pm *PaletteManager) ReadPalette(addr uint8) uint8\<close>\<close>

definition ReadPalette :: "PaletteManager \<Rightarrow> u8 \<Rightarrow> u8" where
  "ReadPalette pm addr = PaletteRAM pm (paletteMirror (addr AND 0x1F))"

text \<open>\<open>func (pm *PaletteManager) WritePalette(addr uint8, value uint8)\<close>\<close>

definition WritePalette :: "PaletteManager \<Rightarrow> u8 \<Rightarrow> u8 \<Rightarrow> PaletteManager" where
  "WritePalette pm addr val =
     pm\<lparr>PaletteRAM := (PaletteRAM pm)(paletteMirror (addr AND 0x1F) := val AND 0x3F)\<rparr>"

definition SetEmphasis :: "PaletteManager \<Rightarrow> u8 \<Rightarrow> PaletteManager" where
  "SetEmphasis pm emphasis = pm\<lparr>Emphasis := emphasis AND 0xE0\<rparr>"

subsection \<open>The PPU's state\<close>

text \<open>
  The cartridge is reached through an interface-typed field that may be nil; the
  record is polymorphic in the cartridge's state and the interface's methods are
  the fields of \<open>PPUCart\<close>.  Each method returns the cartridge's new state.
\<close>

record 'c PPUCart =
  cartReadCHR :: "'c \<Rightarrow> u16 \<Rightarrow> u8 \<times> 'c"
  cartWriteCHR :: "'c \<Rightarrow> u16 \<Rightarrow> u8 \<Rightarrow> 'c"
  cartStep :: "'c \<Rightarrow> 'c"
  cartIsIRQPending :: "'c \<Rightarrow> bool \<times> 'c"
  cartClearIRQ :: "'c \<Rightarrow> 'c"
  cartGetMirroring :: "'c \<Rightarrow> int \<times> 'c"
  cartNotifyA12 :: "'c \<Rightarrow> u16 \<Rightarrow> bool \<Rightarrow> 'c"

record SpriteInfo =
  spr_Y :: u8
  spr_TileIndex :: u8
  spr_Attributes :: u8
  spr_X :: u8
  spr_OAMIndex :: int

record tileCache =
  tc_valid :: bool
  tc_tileIndex :: u8
  tc_attributes :: u8
  tc_patternLo :: u8
  tc_patternHi :: u8
  tc_tileX :: int
  tc_tileY :: int

text \<open>
  The internal registers \<open>v\<close>, \<open>t\<close>, \<open>x\<close>, \<open>xTemp\<close> and \<open>w\<close> are the fields
  \<open>reg_v\<close>, \<open>reg_t\<close>, \<open>reg_x\<close>, \<open>reg_xTemp\<close> and \<open>reg_w\<close>.  The arrays
  \<open>VRAM [0x4000]uint8\<close>, \<open>OAM [256]uint8\<close> and the two frame buffers
  \<open>[256*240]uint32\<close> are functions of the index.  The package-level variable
  \<open>bgTileCache\<close> is the field \<open>bgTileCache\<close>.  The fields \<open>OAMDATA\<close>,
  \<open>PPUSCROLL\<close>, \<open>PPUADDR\<close>, \<open>PPUDATA\<close>, \<open>ScrollY\<close> and \<open>Memory\<close> of the
  struct are never read or written and are left out.
\<close>

record 'c PPU =
  PPUCTRL :: u8
  PPUMASK :: u8
  PPUSTATUS :: u8
  OAMADDR :: u8
  reg_v :: u16
  reg_t :: u16
  reg_x :: u8
  reg_xTemp :: u8
  reg_w :: u8
  VRAM :: "u16 \<Rightarrow> u8"
  OAM :: "u8 \<Rightarrow> u8"
  FrameBuffer :: "int \<Rightarrow> u32"
  PersistentFrameBuffer :: "int \<Rightarrow> u32"
  renderingOccurred :: bool
  lastRenderFrame :: u64
  Cycle :: int
  Scanline :: int
  Frame :: u64
  FrameComplete :: bool
  NMIRequested :: bool
  PaletteManager :: PaletteManager
  currentSprites :: "SpriteInfo list"
  readBuffer :: u8
  Cartridge :: "'c option"
  bgTileCache :: tileCache

definition PPU_New :: "'c PPU" where
  "PPU_New =
     \<lparr>PPUCTRL = 0, PPUMASK = 0, PPUSTATUS = 0, OAMADDR = 0, reg_v = 0, reg_t = 0,
      reg_x = 0, reg_xTemp = 0, reg_w = 0, VRAM = (\<lambda>_. 0), OAM = (\<lambda>_. 0),
      FrameBuffer = (\<lambda>_. 0), PersistentFrameBuffer = (\<lambda>_. 0),
      renderingOccurred = False, lastRenderFrame = 0, Cycle = 0, Scanline = 0, Frame = 0,
      FrameComplete = False, NMIRequested = False, PaletteManager = NewPaletteManager,
      currentSprites = [], readBuffer = 0, Cartridge = None,
      bgTileCache = \<lparr>tc_valid = False, tc_tileIndex = 0, tc_attributes = 0,
                      tc_patternLo = 0, tc_patternHi = 0, tc_tileX = 0, tc_tileY = 0\<rparr>\<rparr>"

text \<open>\<open>func (p *PPU) Reset()\<close>\<close>

definition PPU_Reset :: "'c PPU \<Rightarrow> 'c PPU" where
  "PPU_Reset p =
     p\<lparr>PPUCTRL := 0, PPUMASK := 0, PPUSTATUS := 0, OAMADDR := 0, reg_v := 0, reg_t := 0,
       reg_x := 0, reg_w := 0, Cycle := 0, Scanline := 0, FrameComplete := False,
       renderingOccurred := False\<rparr>"

subsection \<open>Nametable mirroring and the PPU bus\<close>

definition applyHorizontalMirroring :: "u16 \<Rightarrow> u16" where
  "applyHorizontalMirroring offset =
     (if offset \<ge> 0x800 then offset - 0x400 else offset AND 0x7FF)"

definition applyVerticalMirroring :: "u16 \<Rightarrow> u16" where
  "applyVerticalMirroring offset = offset AND 0x7FF"

text \<open>\<open>func (p *PPU) mirrorNameTableAddress(addr uint16) uint16\<close>\<close>

definition mirrorNameTableAddress :: "'c PPUCart \<Rightarrow> 'c PPU \<Rightarrow> u16 \<Rightarrow> u16 \<times> 'c PPU" where
  "mirrorNameTableAddress co p addr =
     (let offset = addr - 0x2000 in
      case Cartridge p of
        None \<Rightarrow> (applyHorizontalMirroring offset + 0x2000, p)
      | Some c \<Rightarrow>
          (let (mode, c') = cartGetMirroring co c;
               p' = p\<lparr>Cartridge := Some c'\<rparr>
           in if mode = 0 then (applyHorizontalMirroring offset + 0x2000, p')
              else if mode = 1 then (applyVerticalMirroring offset + 0x2000, p')
              else (addr, p')))"

definition readNameTable :: "'c PPUCart \<Rightarrow> 'c PPU \<Rightarrow> u16 \<Rightarrow> u8 \<times> 'c PPU" where
  "readNameTable co p addr =
     (let (mirroredAddr, p') = mirrorNameTableAddress co p addr
      in (VRAM p' mirroredAddr, p'))"

definition writeNameTable :: "'c PPUCart \<Rightarrow> 'c PPU \<Rightarrow> u16 \<Rightarrow> u8 \<Rightarrow> 'c PPU" where
  "writeNameTable co p addr val =
     (let (mirroredAddr, p') = mirrorNameTableAddress co p addr
      in p'\<lparr>VRAM := (VRAM p')(mirroredAddr := val)\<rparr>)"

definition renderingEnabled :: "'c PPU \<Rightarrow> bool" where
  "renderingEnabled p = (PPUMASK p AND (0x08 OR 0x10) \<noteq> 0)"

text \<open>
  The A12 notification that \<open>readVRAM\<close> and \<open>writeVRAM\<close> send before a pattern
  table access: only on a visible scanline with rendering enabled.
\<close>

definition notifyA12_on_access :: "'c PPUCart \<Rightarrow> 'c PPU \<Rightarrow> 'c \<Rightarrow> u16 \<Rightarrow> 'c" where
  "notifyA12_on_access co p c addr =
     (if renderingEnabled p \<and> 0 \<le> Scanline p \<and> Scanline p < 240
      then cartNotifyA12 co c addr (renderingEnabled p) else c)"

text \<open>\<open>func (p *PPU) readVRAM(addr uint16) uint8\<close>\<close>

definition readVRAM :: "'c PPUCart \<Rightarrow> 'c PPU \<Rightarrow> u16 \<Rightarrow> u8 \<times> 'c PPU" where
  "readVRAM co p addr0 =
     (let addr = addr0 mod 0x4000 in
      if addr < 0x2000 then
        (case Cartridge p of
           Some c \<Rightarrow>
             (let c1 = notifyA12_on_access co p c addr;
                  (val, c2) = cartReadCHR co c1 addr
              in (val, p\<lparr>Cartridge := Some c2\<rparr>))
         | None \<Rightarrow> (0, p))
      else if addr < 0x3F00 then readNameTable co p addr
      else if addr < 0x4000 then (ReadPalette (PaletteManager p) (ucast (addr AND 0x1F)), p)
      else (0, p))"

text \<open>\<open>func (p *PPU) writeVRAM(addr uint16, value uint8)\<close>\<close>

definition writeVRAM :: "'c PPUCart \<Rightarrow> 'c PPU \<Rightarrow> u16 \<Rightarrow> u8 \<Rightarrow> 'c PPU" where
  "writeVRAM co p addr0 val =
     (let addr = addr0 mod 0x4000 in
      if addr < 0x2000 then
        (case Cartridge p of
           Some c \<Rightarrow>
             (let c1 = notifyA12_on_access co p c addr
              in p\<lparr>Cartridge := Some (cartWriteCHR co c1 addr val)\<rparr>)
         | None \<Rightarrow> p)
      else if addr < 0x3F00 then writeNameTable co p addr val
      else if addr < 0x4000 then
        p\<lparr>PaletteManager := WritePalette (PaletteManager p) (ucast (addr AND 0x1F)) val\<rparr>
      else p)"

subsection \<open>The CPU-visible registers\<close>

definition vramIncrement :: "'c PPU \<Rightarrow> 'c PPU" where
  "vramIncrement p =
     (if PPUCTRL p AND 0x04 \<noteq> 0 then p\<lparr>reg_v := reg_v p + 32\<rparr>
      else p\<lparr>reg_v := reg_v p + 1\<rparr>)"

text \<open>\<open>func (p *PPU) ReadRegister(addr uint16) uint8\<close>\<close>

definition PPU_ReadRegister :: "'c PPUCart \<Rightarrow> 'c PPU \<Rightarrow> u16 \<Rightarrow> u8 \<times> 'c PPU" where
  "PPU_ReadRegister co p addr =
     (if addr = 0x2002 then
        (PPUSTATUS p, p\<lparr>PPUSTATUS := PPUSTATUS p AND NOT 0x80, reg_w := 0\<rparr>)
      else if addr = 0x2004 then (OAM p (OAMADDR p), p)
      else if addr = 0x2007 then
        (let (val, p2) =
               (if reg_v p \<ge> 0x3F00 then
                  (let (val, p1) = readVRAM co p (reg_v p);
                       (buf, p2) = readVRAM co p1 (reg_v p1 - 0x1000)
                   in (val, p2\<lparr>readBuffer := buf\<rparr>))
                else
                  (let val = readBuffer p;
                       (buf, p1) = readVRAM co p (reg_v p)
                   in (val, p1\<lparr>readBuffer := buf\<rparr>)))
         in (val, vramIncrement p2))
      else (0, p))"

text \<open>\<open>func (p *PPU) WriteRegister(addr uint16, value uint8)\<close>\<close>

definition PPU_WriteRegister :: "'c PPUCart \<Rightarrow> 'c PPU \<Rightarrow> u16 \<Rightarrow> u8 \<Rightarrow> 'c PPU" where
  "PPU_WriteRegister co p addr val =
     (if addr = 0x2000 then
        p\<lparr>PPUCTRL := val,
          reg_t := (reg_t p AND 0xF3FF) OR push_bit 10 (ucast val AND 0x03)\<rparr>
      else if addr = 0x2001 then p\<lparr>PPUMASK := val\<rparr>
      else if addr = 0x2003 then p\<lparr>OAMADDR := val\<rparr>
      else if addr = 0x2004 then
        p\<lparr>OAM := (OAM p)(OAMADDR p := val), OAMADDR := OAMADDR p + 1\<rparr>
      else if addr = 0x2005 then
        (if reg_w p = 0 then
           p\<lparr>reg_t := (reg_t p AND 0xFFE0) OR drop_bit 3 (ucast val),
             reg_xTemp := val AND 0x07, reg_w := 1\<rparr>
         else
           (let t1 = (reg_t p AND 0x8FFF) OR push_bit 12 (ucast val AND 0x07);
                t2 = (t1 AND 0xFC1F) OR push_bit 2 (ucast val AND 0xF8)
            in p\<lparr>reg_t := t2, reg_w := 0\<rparr>))
      else if addr = 0x2006 then
        (if reg_w p = 0 then
           p\<lparr>reg_t := (reg_t p AND 0x80FF) OR push_bit 8 (ucast val AND 0x3F), reg_w := 1\<rparr>
         else
           (let t1 = (reg_t p AND 0xFF00) OR ucast val
            in p\<lparr>reg_t := t1, reg_v := t1, reg_w := 0\<rparr>))
      else if addr = 0x2007 then vramIncrement (writeVRAM co p (reg_v p) val)
      else p)"

section \<open>The PPU: rendering and the dot clock\<close>

subsection \<open>Colours\<close>

definition masterPalette :: "(u8 \<times> u8 \<times> u8) list" where
  "masterPalette =
     [(0x80, 0x80, 0x80), (0x00, 0x3D, 0xA6), (0x00, 0x12, 0xB0), (0x44, 0x00, 0x96),
      (0xA1, 0x00, 0x5E), (0xC7, 0x00, 0x28), (0xBA, 0x06, 0x00), (0x8C, 0x17, 0x00),
      (0x5C, 0x2F, 0x00), (0x10, 0x45, 0x00), (0x05, 0x4A, 0x00), (0x00, 0x47, 0x2E),
      (0x00, 0x41, 0x66), (0x00, 0x00, 0x00), (0x05, 0x05, 0x05), (0x05, 0x05, 0x05),
      (0xC7, 0xC7, 0xC7), (0x00, 0x77, 0xFF), (0x21, 0x55, 0xFF), (0x82, 0x37, 0xFA),
      (0xEB, 0x2F, 0xB5), (0xFF, 0x29, 0x50), (0xFF, 0x22, 0x00), (0xD6, 0x32, 0x00),
      (0xC4, 0x62, 0x00), (0x35, 0x80, 0x00), (0x05, 0x8F, 0x00), (0x00, 0x8A, 0x55),
      (0x00, 0x99, 0xCC), (0x21, 0x21, 0x21), (0x09, 0x09, 0x09), (0x09, 0x09, 0x09),
      (0xFF, 0xFF, 0xFF), (0x0F, 0xD7, 0xFF), (0x69, 0xA2, 0xFF), (0xD4, 0x80, 0xFF),
      (0xFF, 0x45, 0xF3), (0xFF, 0x61, 0x8B), (0xFF, 0x88, 0x33), (0xFF, 0x9C, 0x12),
      (0xFA, 0xBC, 0x20), (0x9F, 0xE3, 0x0E), (0x2B, 0xF0, 0x35), (0x0C, 0xF0, 0xA4),
      (0x05, 0xFB, 0xFF), (0x5E, 0x5E, 0x5E), (0x0D, 0x0D, 0x0D), (0x0D, 0x0D, 0x0D),
      (0xFF, 0xFF, 0xFF), (0xA6, 0xFC, 0xFF), (0xB3, 0xEC, 0xFF), (0xDA, 0xAB, 0xEB),
      (0xFF, 0xA8, 0xF9), (0xFF, 0xAB, 0xB3), (0xFF, 0xD2, 0xB0), (0xFF, 0xEF, 0xA6),
      (0xFF, 0xF7, 0x9C), (0xD7, 0xFF, 0xB3), (0xC6, 0xFF, 0xDE), (0xC4, 0xFF, 0xF6),
      (0xC4, 0xF0, 0xFF), (0xCC, 0xCC, 0xCC), (0x3C, 0x3C, 0x3C), (0x3C, 0x3C, 0x3C)]"

text \<open>
  \<open>applyEmphasis\<close> computes \<open>uint8(float32(r) * 0.75)\<close>.  For an 8-bit \<open>r\<close> the
  product \<open>3r/4\<close> is a multiple of 1/4 below 192 and is exact in \<open>float32\<close>;
  the conversion truncates, so the result is \<open>3r div 4\<close>.
\<close>

definition dim :: "u8 \<Rightarrow> u8" where
  "dim r = of_nat ((3 * unat r) div 4)"

definition applyEmphasis :: "PaletteManager \<Rightarrow> u8 \<times> u8 \<times> u8 \<Rightarrow> u8 \<times> u8 \<times> u8" where
  "applyEmphasis pm rgb =
     (case rgb of (r, g, b) \<Rightarrow>
        (if Emphasis pm AND 0x20 = 0 then dim r else r,
         if Emphasis pm AND 0x40 = 0 then dim g else g,
         if Emphasis pm AND 0x80 = 0 then dim b else b))"

definition getARGBColor :: "PaletteManager \<Rightarrow> u8 \<Rightarrow> u32" where
  "getARGBColor pm paletteIndex =
     (let idx = (if paletteIndex \<ge> 64 then 0 else paletteIndex);
          rgb = masterPalette ! unat idx;
          (r, g, b) = (if Emphasis pm \<noteq> 0 then applyEmphasis pm rgb else rgb)
      in 0xFF000000 OR push_bit 16 (ucast r) OR push_bit 8 (ucast g) OR ucast b)"

definition GetBackgroundColor :: "PaletteManager \<Rightarrow> u8 \<Rightarrow> u8 \<Rightarrow> u32" where
  "GetBackgroundColor pm palette colorIndex =
     (if palette > 3 \<or> colorIndex > 3 then 0xFF000000
      else
        (let addr = (if colorIndex = 0 then 0 else palette * 4 + colorIndex)
         in getARGBColor pm (ReadPalette pm addr)))"

definition GetSpriteColor :: "PaletteManager \<Rightarrow> u8 \<Rightarrow> u8 \<Rightarrow> u32" where
  "GetSpriteColor pm palette colorIndex =
     (if palette > 3 \<or> colorIndex > 3 then 0x00000000
      else if colorIndex = 0 then 0x00000000
      else getARGBColor pm (ReadPalette pm (0x10 + palette * 4 + colorIndex)))"

subsection \<open>Background tiles\<close>

record BackgroundTile =
  bt_TileIndex :: u8
  bt_Attributes :: u8
  bt_PatternLo :: u8
  bt_PatternHi :: u8

text \<open>
  \<open>func getPixelColor(patternLo, patternHi uint8, pixelX int) uint8\<close>; every
  caller passes a \<open>pixelX\<close> from 0 to 7.
\<close>

definition getPixelColor :: "u8 \<Rightarrow> u8 \<Rightarrow> int \<Rightarrow> u8" where
  "getPixelColor patternLo patternHi pixelX =
     (let bitPos = nat (7 - pixelX);
          lowBit = drop_bit bitPos patternLo AND 1;
          highBit = drop_bit bitPos patternHi AND 1
      in push_bit 1 highBit OR lowBit)"

text \<open>\<open>func (p *PPU) fetchBackgroundTileWithScroll(tileX, tileY, pixelY int) BackgroundTile\<close>\<close>

definition fetchBackgroundTileWithScroll ::
  "'c PPUCart \<Rightarrow> 'c PPU \<Rightarrow> int \<Rightarrow> int \<Rightarrow> int \<Rightarrow> BackgroundTile \<times> 'c PPU" where
  "fetchBackgroundTileWithScroll co p tileX tileY pixelY =
     (let coarseX = uint (reg_v p AND 0x1F);
          coarseY = uint (drop_bit 5 (reg_v p) AND 0x1F);
          scrolledTileX0 = coarseX + tileX;
          fineY = uint (drop_bit 12 (reg_v p) AND 0x07);
          effectiveTileY = (if pixelY + fineY \<ge> 8 then tileY + 1 else tileY);
          scrolledTileY0 = coarseY + effectiveTileY;
          nameTableX = (if scrolledTileX0 \<ge> 32 then 1 else 0 :: int);
          scrolledTileX = (if scrolledTileX0 \<ge> 32 then scrolledTileX0 - 32 else scrolledTileX0);
          nameTableY = (if scrolledTileY0 \<ge> 30 then 1 else 0 :: int);
          scrolledTileY = (if scrolledTileY0 \<ge> 30 then scrolledTileY0 - 30 else scrolledTileY0);
          baseNTX = uint (drop_bit 10 (reg_v p)) AND 1;
          baseNTY = uint (drop_bit 11 (reg_v p)) AND 1;
          finalNTX = rem (baseNTX + nameTableX) 2;
          finalNTY = rem (baseNTY + nameTableY) 2;
          nameTableIndex = finalNTY * 2 + finalNTX;
          nameTableBase = (0x2000 + of_int nameTableIndex * 0x400 :: u16);
          nameTableAddr = nameTableBase + of_int (scrolledTileY * 32 + scrolledTileX);
          (tileIndex, p1) = readVRAM co p nameTableAddr;
          attrAddr = nameTableBase + 0x3C0
                       + of_int (quot scrolledTileY 4 * 8 + quot scrolledTileX 4);
          (attrByte, p2) = readVRAM co p1 attrAddr;
          attrShift = ((scrolledTileY AND 2) * 2) + quot (scrolledTileX AND 2) 2 * 2;
          attributes = drop_bit (nat attrShift) attrByte AND 0x03;
          patternTableBase = (if PPUCTRL p2 AND 0x10 \<noteq> 0 then 0x1000 else 0x0000 :: u16);
          tileAddr = patternTableBase + ucast tileIndex * 16;
          fineY2 = uint (drop_bit 12 (reg_v p2) AND 0x07);
          adjustedPixelY = rem (pixelY + fineY2) 8;
          tileRow = (of_int adjustedPixelY :: u16);
          (patternLo, p3) = readVRAM co p2 (tileAddr + tileRow);
          (patternHi, p4) = readVRAM co p3 (tileAddr + tileRow + 8)
      in (\<lparr>bt_TileIndex = tileIndex, bt_Attributes = attributes,
           bt_PatternLo = patternLo, bt_PatternHi = patternHi\<rparr>, p4))"

text \<open>\<open>func (p *PPU) isBackgroundPixelOpaque(x, y int) bool\<close>\<close>

definition isBackgroundPixelOpaque ::
  "'c PPUCart \<Rightarrow> 'c PPU \<Rightarrow> int \<Rightarrow> int \<Rightarrow> bool \<times> 'c PPU" where
  "isBackgroundPixelOpaque co p x y =
     (if PPUMASK p AND 0x08 = 0 then (False, p)
      else if x < 8 \<and> PPUMASK p AND 0x02 = 0 then (False, p)
      else
        (let adjustedX = x + uint (reg_x p);
             tileX = quot adjustedX 8;
             pixelX = rem adjustedX 8;
             tileY = quot y 8;
             pixelY = rem y 8;
             (tile, p1) = fetchBackgroundTileWithScroll co p tileX tileY pixelY;
             colorIndex = getPixelColor (bt_PatternLo tile) (bt_PatternHi tile) pixelX
         in (colorIndex \<noteq> 0, p1)))"

text \<open>\<open>func (p *PPU) renderBackgroundPixelCached(x, y int) uint32\<close>\<close>

definition renderBackgroundPixelCached ::
  "'c PPUCart \<Rightarrow> 'c PPU \<Rightarrow> int \<Rightarrow> int \<Rightarrow> u32 \<times> 'c PPU" where
  "renderBackgroundPixelCached co p x y =
     (if PPUMASK p AND 0x08 = 0 then (GetBackgroundColor (PaletteManager p) 0 0, p)
      else if x < 8 \<and> PPUMASK p AND 0x02 = 0 then (GetBackgroundColor (PaletteManager p) 0 0, p)
      else
        (let adjustedX = x + uint (reg_x p);
             tileX = quot adjustedX 8;
             pixelX = rem adjustedX 8;
             tileY = quot y 8;
             pixelY = rem y 8;
             p1 = (if \<not> tc_valid (bgTileCache p) \<or> tc_tileX (bgTileCache p) \<noteq> tileX
                      \<or> tc_tileY (bgTileCache p) \<noteq> tileY
                   then
                     (let (tile, q) = fetchBackgroundTileWithScroll co p tileX tileY pixelY
                      in q\<lparr>bgTileCache :=
                            \<lparr>tc_valid = True, tc_tileIndex = bt_TileIndex tile,
                             tc_attributes = bt_Attributes tile,
                             tc_patternLo = bt_PatternLo tile,
                             tc_patternHi = bt_PatternHi tile,
                             tc_tileX = tileX, tc_tileY = tileY\<rparr>\<rparr>)
                   else p);
             colorIndex = getPixelColor (tc_patternLo (bgTileCache p1))
                            (tc_patternHi (bgTileCache p1)) pixelX
         in (GetBackgroundColor (PaletteManager p1) (tc_attributes (bgTileCache p1)) colorIndex,
             p1)))"

subsection \<open>Sprites\<close>

definition spriteHeight :: "'c PPU \<Rightarrow> int" where
  "spriteHeight p = (if PPUCTRL p AND 0x20 \<noteq> 0 then 16 else 8)"

text \<open>
  The loop of \<open>fetchSpriteData\<close> over the 64 OAM entries: \<open>i\<close> is the entry,
  the next argument the number of entries left.  It stops at the eighth sprite
  found, and reports that it did.
\<close>

fun fetchSpriteLoop ::
  "(u8 \<Rightarrow> u8) \<Rightarrow> int \<Rightarrow> int \<Rightarrow> nat \<Rightarrow> nat \<Rightarrow> SpriteInfo list \<Rightarrow> SpriteInfo list \<times> bool" where
  "fetchSpriteLoop oam scanline h i 0 sprites = (sprites, False)"
| "fetchSpriteLoop oam scanline h i (Suc n) sprites =
     (let spriteY = uint (oam (of_nat (i * 4)))
      in if scanline \<ge> spriteY \<and> scanline < spriteY + h then
           (let sprites' = sprites @
                  [\<lparr>spr_Y = oam (of_nat (i * 4)), spr_TileIndex = oam (of_nat (i * 4 + 1)),
                    spr_Attributes = oam (of_nat (i * 4 + 2)), spr_X = oam (of_nat (i * 4 + 3)),
                    spr_OAMIndex = int i\<rparr>]
            in if length sprites' \<ge> 8 then (sprites', True)
               else fetchSpriteLoop oam scanline h (Suc i) n sprites')
         else fetchSpriteLoop oam scanline h (Suc i) n sprites)"

text \<open>\<open>func (p *PPU) fetchSpriteData(scanline int) []SpriteInfo\<close>\<close>

definition fetchSpriteData :: "'c PPU \<Rightarrow> int \<Rightarrow> SpriteInfo list \<times> 'c PPU" where
  "fetchSpriteData p scanline =
     (let (sprites, overflow) = fetchSpriteLoop (OAM p) scanline (spriteHeight p) 0 64 []
      in (sprites, if overflow then p\<lparr>PPUSTATUS := PPUSTATUS p OR 0x20\<rparr> else p))"

text \<open>
  The address of the pattern row of a sprite pixel, as \<open>renderSpritePixel\<close>
  computes it for 8x16 and for 8x8 sprites; \<open>h\<close> is the sprite height, fixed at
  the start of \<open>renderSpritePixel\<close>.
\<close>

definition spriteTileAddr :: "'c PPU \<Rightarrow> int \<Rightarrow> SpriteInfo \<Rightarrow> int \<Rightarrow> u16" where
  "spriteTileAddr p h sprite pixelY =
     (if h = 16 then
        (let tileIndex0 = spr_TileIndex sprite AND 0xFE;
             tileIndex = (if pixelY \<ge> 8 then tileIndex0 + 1 else tileIndex0);
             pixelY2 = (if pixelY \<ge> 8 then pixelY - 8 else pixelY);
             patternTableBase = (if spr_TileIndex sprite AND 1 \<noteq> 0 then 0x1000 else 0x0000)
         in patternTableBase + ucast tileIndex * 16 + of_int pixelY2)
      else
        (let patternTableBase = (if PPUCTRL p AND 0x08 \<noteq> 0 then 0x1000 else 0x0000)
         in patternTableBase + ucast (spr_TileIndex sprite) * 16 + of_int pixelY))"

text \<open>
  The loop of \<open>renderSpritePixel\<close> over the sprites of the scanline: the first
  sprite that covers the pixel with a non-zero colour decides.
\<close>

fun spriteLoop ::
  "'c PPUCart \<Rightarrow> int \<Rightarrow> int \<Rightarrow> int \<Rightarrow> SpriteInfo list \<Rightarrow> 'c PPU
     \<Rightarrow> (u32 \<times> bool \<times> bool) \<times> 'c PPU" where
  "spriteLoop co x y h [] p = ((0x00000000, False, False), p)"
| "spriteLoop co x y h (sprite # rest) p =
     (if x \<ge> uint (spr_X sprite) \<and> x < uint (spr_X sprite) + 8
         \<and> y \<ge> uint (spr_Y sprite) \<and> y < uint (spr_Y sprite) + h
      then
        (let pixelX0 = x - uint (spr_X sprite);
             pixelY0 = y - uint (spr_Y sprite);
             pixelX = (if spr_Attributes sprite AND 0x40 \<noteq> 0 then 7 - pixelX0 else pixelX0);
             pixelY = (if spr_Attributes sprite AND 0x80 \<noteq> 0
                       then (h - 1) - pixelY0 else pixelY0);
             tileAddr = spriteTileAddr p h sprite pixelY;
             lo = readVRAM co p tileAddr;
             hi = readVRAM co (snd lo) (tileAddr + 8);
             colorIndex = getPixelColor (fst lo) (fst hi) pixelX
         in if colorIndex \<noteq> 0 then
              ((GetSpriteColor (PaletteManager (snd hi)) (spr_Attributes sprite AND 0x03) colorIndex,
                spr_Attributes sprite AND 0x20 = 0, spr_OAMIndex sprite = 0), snd hi)
            else spriteLoop co x y h rest (snd hi))
      else spriteLoop co x y h rest p)"

text \<open>\<open>func (p *PPU) renderSpritePixel(x, y int, sprites []SpriteInfo) (uint32, bool, bool)\<close>\<close>

definition renderSpritePixel ::
  "'c PPUCart \<Rightarrow> 'c PPU \<Rightarrow> int \<Rightarrow> int \<Rightarrow> SpriteInfo list
     \<Rightarrow> (u32 \<times> bool \<times> bool) \<times> 'c PPU" where
  "renderSpritePixel co p x y sprites =
     (if PPUMASK p AND 0x10 = 0 then ((0x00000000, False, False), p)
      else if x < 8 \<and> PPUMASK p AND 0x04 = 0 then ((0x00000000, False, False), p)
      else spriteLoop co x y (spriteHeight p) sprites p)"

subsection \<open>One pixel\<close>

text \<open>
  The end of \<open>renderPixel\<close>: the pixel goes to the frame buffer and, rendering
  being enabled, to the persistent one.
\<close>

definition putPixel :: "'c PPU \<Rightarrow> int \<Rightarrow> u32 \<Rightarrow> 'c PPU" where
  "putPixel p idx color =
     p\<lparr>FrameBuffer := (FrameBuffer p)(idx := color),
       PersistentFrameBuffer := (PersistentFrameBuffer p)(idx := color),
       renderingOccurred := True\<rparr>"

text \<open>\<open>func (p *PPU) renderPixel()\<close>\<close>

definition renderPixel :: "'c PPUCart \<Rightarrow> 'c PPU \<Rightarrow> 'c PPU" where
  "renderPixel co p =
     (if Scanline p < 0 \<or> Scanline p \<ge> 240 \<or> Cycle p < 0 \<or> Cycle p \<ge> 256 then p
      else
        (let x = Cycle p; y = Scanline p; idx = y * 256 + x in
         if idx < 0 \<or> idx \<ge> 256 * 240 then p
         else if \<not> renderingEnabled p then
           p\<lparr>FrameBuffer := (FrameBuffer p)(idx := GetBackgroundColor (PaletteManager p) 0 0)\<rparr>
         else
           (let (bgColor, p1) = renderBackgroundPixelCached co p x y;
                p2 = (if Cycle p1 = 0
                      then (let (sprites, q) = fetchSpriteData p1 (Scanline p1)
                            in q\<lparr>currentSprites := sprites\<rparr>)
                      else p1)
            in if length (currentSprites p2) = 0 then putPixel p2 idx bgColor
               else
                 (let ((spriteColor, spritePriority, sprite0Hit), p3) =
                        renderSpritePixel co p2 x y (currentSprites p2)
                  in if spriteColor AND 0xFF000000 \<noteq> 0 then
                       (let finalColor =
                              (if spritePriority \<or>
                                  bgColor AND 0x00FFFFFF
                                    = GetBackgroundColor (PaletteManager p3) 0 0 AND 0x00FFFFFF
                               then spriteColor else bgColor);
                            p4 = (if sprite0Hit \<and> PPUSTATUS p3 AND 0x40 = 0 then
                                    (let (bgOpaque, q) = isBackgroundPixelOpaque co p3 x y;
                                         spriteEnabled = (PPUMASK q AND 0x10 \<noteq> 0);
                                         bgEnabled = (PPUMASK q AND 0x08 \<noteq> 0);
                                         leftClipped = (x < 8 \<and>
                                            PPUMASK q AND (0x04 OR 0x02) \<noteq> (0x04 OR 0x02))
                                     in if bgOpaque \<and> spriteEnabled \<and> bgEnabled \<and> \<not> leftClipped
                                        then q\<lparr>PPUSTATUS := PPUSTATUS q OR 0x40\<rparr> else q)
                                  else p3)
                        in putPixel p4 idx finalColor)
                     else putPixel p3 idx bgColor))))"

subsection \<open>The dot clock\<close>

text \<open>\<open>func (p *PPU) handleMMC3A12Timing()\<close>\<close>

definition handleMMC3A12Timing :: "'c PPUCart \<Rightarrow> 'c PPU \<Rightarrow> 'c PPU" where
  "handleMMC3A12Timing co p =
     (case Cartridge p of
        None \<Rightarrow> p
      | Some c \<Rightarrow>
          if \<not> renderingEnabled p then p
          else
            (let bgCycles = ((Cycle p \<ge> 0 \<and> Cycle p \<le> 255) \<or> (Cycle p \<ge> 320 \<and> Cycle p \<le> 340));
                 spriteCycles = (Cycle p \<ge> 256 \<and> Cycle p \<le> 319);
                 a12Addr = (if bgCycles then (if drop_bit 4 (PPUCTRL p AND 0x10) = 0
                                              then 0x0000 else 0x1000)
                            else if spriteCycles then (if drop_bit 3 (PPUCTRL p AND 0x08) = 0
                                                       then 0x0000 else 0x1000)
                            else 0);
                 shouldNotify = (bgCycles \<or> spriteCycles);
                 isTileFetchCycle = (rem (Cycle p) 8 = 0 \<or> rem (Cycle p) 8 = 2
                                      \<or> rem (Cycle p) 8 = 4 \<or> rem (Cycle p) 8 = 6)
             in if shouldNotify \<and> isTileFetchCycle
                then p\<lparr>Cartridge := Some (cartNotifyA12 co c a12Addr (renderingEnabled p))\<rparr>
                else p))"

text \<open>
  \<open>func (p *PPU) handleFrameCompletion()\<close>; the count of non-zero pixels it
  computes is not used.
\<close>

definition handleFrameCompletion :: "'c PPU \<Rightarrow> 'c PPU" where
  "handleFrameCompletion p =
     (let hadRendering = renderingOccurred p;
          p1 = p\<lparr>renderingOccurred := False\<rparr>
      in if hadRendering then p1\<lparr>lastRenderFrame := Frame p1\<rparr> else p1)"

text \<open>
  \<open>func (p *PPU) Step()\<close>, one dot.  The four stages: the pixel of a visible
  scanline, the dot and scanline counters with the vertical-blank events, the
  scroll copies of the pre-render scanline, the scroll copy at the start of a
  visible scanline.
\<close>

definition stepCounters :: "'c PPUCart \<Rightarrow> 'c PPU \<Rightarrow> 'c PPU" where
  "stepCounters co p =
     (let p1 = p\<lparr>Cycle := Cycle p + 1\<rparr> in
      if Cycle p1 \<ge> 341 then
        (let p2 = p1\<lparr>Cycle := 0, Scanline := Scanline p1 + 1\<rparr>;
             p3 = (case Cartridge p2 of
                     Some c \<Rightarrow> if Scanline p2 \<ge> 0 \<and> Scanline p2 < 240
                               then p2\<lparr>Cartridge := Some (cartStep co c)\<rparr> else p2
                   | None \<Rightarrow> p2);
             p4 = (if Scanline p3 = 241 then
                     (let q = p3\<lparr>PPUSTATUS := (PPUSTATUS p3 OR 0x80) AND NOT 0x40\<rparr>
                      in if PPUCTRL q AND 0x80 \<noteq> 0 then q\<lparr>NMIRequested := True\<rparr> else q)
                   else p3)
         in if Scanline p4 \<ge> 261 then
              (let q1 = handleFrameCompletion (p4\<lparr>Scanline := -1, FrameComplete := True\<rparr>);
                   q2 = q1\<lparr>Frame := Frame q1 + 1\<rparr>
               in q2\<lparr>PPUSTATUS := PPUSTATUS q2 AND NOT 0x80\<rparr>)
            else p4)
      else p1)"

definition stepPreRender :: "'c PPU \<Rightarrow> 'c PPU" where
  "stepPreRender p =
     (if Scanline p = -1 then
        (let p1 = (if Cycle p = 304 \<and> renderingEnabled p
                   then p\<lparr>reg_v := (reg_v p AND 0x841F) OR (reg_t p AND 0x7BE0)\<rparr> else p)
         in if Cycle p1 = 257 \<and> renderingEnabled p1
            then p1\<lparr>reg_v := (reg_v p1 AND 0xFBE0) OR (reg_t p1 AND 0x041F)\<rparr> else p1)
      else p)"

definition stepVisible :: "'c PPU \<Rightarrow> 'c PPU" where
  "stepVisible p =
     (if Scanline p \<ge> 0 \<and> Scanline p < 240 \<and> Cycle p = 0 \<and> renderingEnabled p
      then p\<lparr>reg_v := (reg_v p AND 0xFBE0) OR (reg_t p AND 0x041F), reg_x := reg_xTemp p\<rparr>
      else p)"

definition PPU_Step :: "'c PPUCart \<Rightarrow> 'c PPU \<Rightarrow> 'c PPU" where
  "PPU_Step co p =
     (let p0 = p\<lparr>PaletteManager := SetEmphasis (PaletteManager p) (PPUMASK p AND 0xE0)\<rparr>;
          p1 = (if Scanline p0 \<ge> 0 \<and> Scanline p0 < 240
                then handleMMC3A12Timing co (renderPixel co p0) else p0)
      in stepVisible (stepPreRender (stepCounters co p1)))"

section \<open>The CPU core (package cpu)\<close>

text \<open>
  The registers \<open>A\<close>, \<open>X\<close>, \<open>Y\<close>, \<open>SP\<close>, \<open>PC\<close> and \<open>P\<close> are the fields
  \<open>cpu_A\<close> ... \<open>cpu_P\<close>; \<open>Memory\<close>, \<open>Cycles\<close>, \<open>NMI\<close> and \<open>IRQ\<close> are
  \<open>cpu_Memory\<close>, \<open>cpu_Cycles\<close>, \<open>cpu_NMI\<close> and \<open>cpu_IRQ\<close>.
\<close>

record ('p, 'a, 'c, 'i) CPU =
  cpu_A :: u8
  cpu_X :: u8
  cpu_Y :: u8
  cpu_SP :: u8
  cpu_PC :: u16
  cpu_P :: u8
  cpu_Memory :: "('p, 'a, 'c, 'i) Memory"
  cpu_Cycles :: int
  cpu_NMI :: bool
  cpu_IRQ :: bool
  lastPC :: u16
  stuckCounter :: int

definition FlagCarry :: u8 where "FlagCarry = 0x01"
definition FlagZero :: u8 where "FlagZero = 0x02"
definition FlagInterrupt :: u8 where "FlagInterrupt = 0x04"
definition FlagDecimal :: u8 where "FlagDecimal = 0x08"
definition FlagBreak :: u8 where "FlagBreak = 0x10"
definition FlagUnused :: u8 where "FlagUnused = 0x20"
definition FlagOverflow :: u8 where "FlagOverflow = 0x40"
definition FlagNegative :: u8 where "FlagNegative = 0x80"

definition CPU_New :: "('p, 'a, 'c, 'i) Memory \<Rightarrow> ('p, 'a, 'c, 'i) CPU" where
  "CPU_New mem =
     \<lparr>cpu_A = 0, cpu_X = 0, cpu_Y = 0, cpu_SP = 0xFD, cpu_PC = 0,
      cpu_P = FlagUnused OR FlagInterrupt, cpu_Memory = mem, cpu_Cycles = 0,
      cpu_NMI = False, cpu_IRQ = False, lastPC = 0, stuckCounter = 0\<rparr>"

definition getFlag :: "('p, 'a, 'c, 'i) CPU \<Rightarrow> u8 \<Rightarrow> bool" where
  "getFlag c flag = (cpu_P c AND flag \<noteq> 0)"

definition setFlag :: "('p, 'a, 'c, 'i) CPU \<Rightarrow> u8 \<Rightarrow> bool \<Rightarrow> ('p, 'a, 'c, 'i) CPU" where
  "setFlag c flag val =
     (if val then c\<lparr>cpu_P := cpu_P c OR flag\<rparr> else c\<lparr>cpu_P := cpu_P c AND NOT flag\<rparr>)"

definition cpu_read ::
  "('p, 'a, 'c, 'i) Devices \<Rightarrow> ('p, 'a, 'c, 'i) CPU \<Rightarrow> u16 \<Rightarrow> u8 \<times> ('p, 'a, 'c, 'i) CPU" where
  "cpu_read dv c addr =
     (let (v, m) = Memory_Read dv (cpu_Memory c) addr in (v, c\<lparr>cpu_Memory := m\<rparr>))"

definition cpu_write ::
  "('p, 'a, 'c, 'i) Devices \<Rightarrow> ('p, 'a, 'c, 'i) CPU \<Rightarrow> u16 \<Rightarrow> u8 \<Rightarrow> ('p, 'a, 'c, 'i) CPU" where
  "cpu_write dv c addr val = c\<lparr>cpu_Memory := Memory_Write dv (cpu_Memory c) addr val\<rparr>"

definition read16 ::
  "('p, 'a, 'c, 'i) Devices \<Rightarrow> ('p, 'a, 'c, 'i) CPU \<Rightarrow> u16 \<Rightarrow> u16 \<times> ('p, 'a, 'c, 'i) CPU" where
  "read16 dv c addr =
     (let (lo, c1) = cpu_read dv c addr;
          (hi, c2) = cpu_read dv c1 (addr + 1)
      in (push_bit 8 (ucast hi) OR ucast lo, c2))"

definition push ::
  "('p, 'a, 'c, 'i) Devices \<Rightarrow> ('p, 'a, 'c, 'i) CPU \<Rightarrow> u8 \<Rightarrow> ('p, 'a, 'c, 'i) CPU" where
  "push dv c val =
     (let c1 = cpu_write dv c (0x100 OR ucast (cpu_SP c)) val
      in c1\<lparr>cpu_SP := cpu_SP c1 - 1\<rparr>)"

definition pop ::
  "('p, 'a, 'c, 'i) Devices \<Rightarrow> ('p, 'a, 'c, 'i) CPU \<Rightarrow> u8 \<times> ('p, 'a, 'c, 'i) CPU" where
  "pop dv c =
     (let c1 = c\<lparr>cpu_SP := cpu_SP c + 1\<rparr>
      in cpu_read dv c1 (0x100 OR ucast (cpu_SP c1)))"

definition push16 ::
  "('p, 'a, 'c, 'i) Devices \<Rightarrow> ('p, 'a, 'c, 'i) CPU \<Rightarrow> u16 \<Rightarrow> ('p, 'a, 'c, 'i) CPU" where
  "push16 dv c val =
     push dv (push dv c (ucast (drop_bit 8 val))) (ucast (val AND 0xFF))"

definition pop16 ::
  "('p, 'a, 'c, 'i) Devices \<Rightarrow> ('p, 'a, 'c, 'i) CPU \<Rightarrow> u16 \<times> ('p, 'a, 'c, 'i) CPU" where
  "pop16 dv c =
     (let (lo, c1) = pop dv c;
          (hi, c2) = pop dv c1
      in (push_bit 8 (ucast hi) OR ucast lo, c2))"

text \<open>\<open>func (c *CPU) handleNMI()\<close> and \<open>func (c *CPU) handleIRQ()\<close>\<close>

definition handleNMI ::
  "('p, 'a, 'c, 'i) Devices \<Rightarrow> ('p, 'a, 'c, 'i) CPU \<Rightarrow> ('p, 'a, 'c, 'i) CPU" where
  "handleNMI dv c =
     (let c1 = push16 dv c (cpu_PC c);
          c2 = push dv c1 (cpu_P c1);
          c3 = setFlag c2 FlagInterrupt True;
          (nmiVector, c4) = read16 dv c3 0xFFFA
      in c4\<lparr>cpu_PC := nmiVector\<rparr>)"

definition handleIRQ ::
  "('p, 'a, 'c, 'i) Devices \<Rightarrow> ('p, 'a, 'c, 'i) CPU \<Rightarrow> ('p, 'a, 'c, 'i) CPU" where
  "handleIRQ dv c =
     (let c1 = push16 dv c (cpu_PC c);
          c2 = push dv c1 (cpu_P c1);
          c3 = setFlag c2 FlagInterrupt True;
          (irqVector, c4) = read16 dv c3 0xFFFE
      in c4\<lparr>cpu_PC := irqVector\<rparr>)"

definition TriggerNMI :: "('p, 'a, 'c, 'i) CPU \<Rightarrow> ('p, 'a, 'c, 'i) CPU" where
  "TriggerNMI c = c\<lparr>cpu_NMI := True\<rparr>"

definition TriggerIRQ :: "('p, 'a, 'c, 'i) CPU \<Rightarrow> ('p, 'a, 'c, 'i) CPU" where
  "TriggerIRQ c = c\<lparr>cpu_IRQ := True\<rparr>"

subsection \<open>Addressing modes\<close>

datatype AddressingMode =
  AddrImplied | AddrAccumulator | AddrImmediate | AddrZeroPage | AddrZeroPageX
  | AddrZeroPageY | AddrRelative | AddrAbsolute | AddrAbsoluteX | AddrAbsoluteY
  | AddrIndirect | AddrIndexedIndirect | AddrIndirectIndexed

text \<open>
  The dummy read of the indexed modes on a page crossing, at
  \<open>(base & 0xFF00) | ((base + index) & 0xFF)\<close>: a bus read whose value is dropped.
\<close>

definition indexed ::
  "('p, 'a, 'c, 'i) Devices \<Rightarrow> ('p, 'a, 'c, 'i) CPU \<Rightarrow> u16 \<Rightarrow> u8
     \<Rightarrow> (u16 \<times> bool) \<times> ('p, 'a, 'c, 'i) CPU" where
  "indexed dv c base idx =
     (let addr = base + ucast idx;
          pageCrossed = ((base AND 0xFF00) \<noteq> (addr AND 0xFF00));
          c1 = (if pageCrossed
                then snd (cpu_read dv c ((base AND 0xFF00) OR ((base + ucast idx) AND 0xFF)))
                else c)
      in ((addr, pageCrossed), c1))"

text \<open>\<open>func (c *CPU) getOperandAddress(mode AddressingMode) (uint16, bool)\<close>\<close>

definition getOperandAddress ::
  "('p, 'a, 'c, 'i) Devices \<Rightarrow> ('p, 'a, 'c, 'i) CPU \<Rightarrow> AddressingMode
     \<Rightarrow> (u16 \<times> bool) \<times> ('p, 'a, 'c, 'i) CPU" where
  "getOperandAddress dv c mode =
     (case mode of
        AddrImplied \<Rightarrow> ((0, False), c)
      | AddrAccumulator \<Rightarrow> ((0, False), c)
      | AddrImmediate \<Rightarrow> ((cpu_PC c, False), c\<lparr>cpu_PC := cpu_PC c + 1\<rparr>)
      | AddrZeroPage \<Rightarrow>
          (let (b, c1) = cpu_read dv c (cpu_PC c)
           in ((ucast b, False), c1\<lparr>cpu_PC := cpu_PC c1 + 1\<rparr>))
      | AddrZeroPageX \<Rightarrow>
          (let (b, c1) = cpu_read dv c (cpu_PC c);
               addr = (ucast (b + cpu_X c1) :: u16)
           in ((addr AND 0xFF, False), c1\<lparr>cpu_PC := cpu_PC c1 + 1\<rparr>))
      | AddrZeroPageY \<Rightarrow>
          (let (b, c1) = cpu_read dv c (cpu_PC c);
               addr = (ucast (b + cpu_Y c1) :: u16)
           in ((addr AND 0xFF, False), c1\<lparr>cpu_PC := cpu_PC c1 + 1\<rparr>))
      | AddrRelative \<Rightarrow>
          (let (b, c1) = cpu_read dv c (cpu_PC c);
               c2 = c1\<lparr>cpu_PC := cpu_PC c1 + 1\<rparr>;
               addr = cpu_PC c2 + scast b
           in ((addr, (cpu_PC c2 AND 0xFF00) \<noteq> (addr AND 0xFF00)), c2))
      | AddrAbsolute \<Rightarrow>
          (let (addr, c1) = read16 dv c (cpu_PC c)
           in ((addr, False), c1\<lparr>cpu_PC := cpu_PC c1 + 2\<rparr>))
      | AddrAbsoluteX \<Rightarrow>
          (let (base, c1) = read16 dv c (cpu_PC c);
               c2 = c1\<lparr>cpu_PC := cpu_PC c1 + 2\<rparr>
           in indexed dv c2 base (cpu_X c2))
      | AddrAbsoluteY \<Rightarrow>
          (let (base, c1) = read16 dv c (cpu_PC c);
               c2 = c1\<lparr>cpu_PC := cpu_PC c1 + 2\<rparr>
           in indexed dv c2 base (cpu_Y c2))
      | AddrIndirect \<Rightarrow>
          (let (ptr, c1) = read16 dv c (cpu_PC c);
               c2 = c1\<lparr>cpu_PC := cpu_PC c1 + 2\<rparr>
           in if ptr AND 0xFF = 0xFF then
                (let (lo, c3) = cpu_read dv c2 ptr;
                     (hi, c4) = cpu_read dv c3 (ptr AND 0xFF00)
                 in ((push_bit 8 (ucast hi) OR ucast lo, False), c4))
              else (let (addr, c3) = read16 dv c2 ptr in ((addr, False), c3)))
      | AddrIndexedIndirect \<Rightarrow>
          (let (base, c1) = cpu_read dv c (cpu_PC c);
               c2 = c1\<lparr>cpu_PC := cpu_PC c1 + 1\<rparr>;
               ptr = ((ucast base + ucast (cpu_X c2)) AND 0xFF :: u16);
               (lo, c3) = cpu_read dv c2 ptr;
               (hi, c4) = cpu_read dv c3 ((ptr + 1) AND 0xFF)
           in ((push_bit 8 (ucast hi) OR ucast lo, False), c4))
      | AddrIndirectIndexed \<Rightarrow>
          (let (base, c1) = cpu_read dv c (cpu_PC c);
               c2 = c1\<lparr>cpu_PC := cpu_PC c1 + 1\<rparr>;
               (lo, c3) = cpu_read dv c2 (ucast base);
               (hi, c4) = cpu_read dv c3 ((ucast base + 1) AND 0xFF);
               baseAddr = (push_bit 8 (ucast hi) OR ucast lo :: u16)
           in indexed dv c4 baseAddr (cpu_Y c4)))"

subsection \<open>The store instructions and NOP\<close>

definition getStoreCycles :: "AddressingMode \<Rightarrow> int" where
  "getStoreCycles mode =
     (case mode of
        AddrZeroPage \<Rightarrow> 3
      | AddrZeroPageX \<Rightarrow> 4
      | AddrZeroPageY \<Rightarrow> 4
      | AddrAbsolute \<Rightarrow> 4
      | AddrAbsoluteX \<Rightarrow> 5
      | AddrAbsoluteY \<Rightarrow> 5
      | AddrIndexedIndirect \<Rightarrow> 6
      | AddrIndirectIndexed \<Rightarrow> 6
      | _ \<Rightarrow> 3)"

text \<open>
  \<open>execSTA\<close>, \<open>execSTX\<close> and \<open>execSTY\<close>: resolve the operand address, write the
  register through the bus, return \<open>getStoreCycles(mode)\<close>.  \<open>Memory.Write\<close>
  returns nothing, so nothing the write does reaches the cycle count.
\<close>

definition execSTA ::
  "('p, 'a, 'c, 'i) Devices \<Rightarrow> ('p, 'a, 'c, 'i) CPU \<Rightarrow> AddressingMode
     \<Rightarrow> int \<times> ('p, 'a, 'c, 'i) CPU" where
  "execSTA dv c mode =
     (let ((addr, pc), c1) = getOperandAddress dv c mode
      in (getStoreCycles mode, cpu_write dv c1 addr (cpu_A c1)))"

definition execSTX ::
  "('p, 'a, 'c, 'i) Devices \<Rightarrow> ('p, 'a, 'c, 'i) CPU \<Rightarrow> AddressingMode
     \<Rightarrow> int \<times> ('p, 'a, 'c, 'i) CPU" where
  "execSTX dv c mode =
     (let ((addr, pc), c1) = getOperandAddress dv c mode
      in (getStoreCycles mode, cpu_write dv c1 addr (cpu_X c1)))"

definition execSTY ::
  "('p, 'a, 'c, 'i) Devices \<Rightarrow> ('p, 'a, 'c, 'i) CPU \<Rightarrow> AddressingMode
     \<Rightarrow> int \<times> ('p, 'a, 'c, 'i) CPU" where
  "execSTY dv c mode =
     (let ((addr, pc), c1) = getOperandAddress dv c mode
      in (getStoreCycles mode, cpu_write dv c1 addr (cpu_Y c1)))"

definition execNOP :: "('p, 'a, 'c, 'i) CPU \<Rightarrow> int \<times> ('p, 'a, 'c, 'i) CPU" where
  "execNOP c = (2, c)"

text \<open>
  \<open>func (c *CPU) executeInstruction(opcode uint8) int\<close>, for the opcodes of
  \<open>STA\<close>, \<open>STX\<close>, \<open>STY\<close> and \<open>NOP\<close> (\<open>$EA\<close>).  The other cases of the switch are
  not part of this embedding: the result is \<open>None\<close> for them, which says nothing
  about what the source does there.
\<close>

definition executeInstruction ::
  "('p, 'a, 'c, 'i) Devices \<Rightarrow> ('p, 'a, 'c, 'i) CPU \<Rightarrow> u8
     \<Rightarrow> (int \<times> ('p, 'a, 'c, 'i) CPU) option" where
  "executeInstruction dv c opcode =
     (if opcode = 0x85 then Some (execSTA dv c AddrZeroPage)
      else if opcode = 0x95 then Some (execSTA dv c AddrZeroPageX)
      else if opcode = 0x8D then Some (execSTA dv c AddrAbsolute)
      else if opcode = 0x9D then Some (execSTA dv c AddrAbsoluteX)
      else if opcode = 0x99 then Some (execSTA dv c AddrAbsoluteY)
      else if opcode = 0x81 then Some (execSTA dv c AddrIndexedIndirect)
      else if opcode = 0x91 then Some (execSTA dv c AddrIndirectIndexed)
      else if opcode = 0x86 then Some (execSTX dv c AddrZeroPage)
      else if opcode = 0x96 then Some (execSTX dv c AddrZeroPageY)
      else if opcode = 0x8E then Some (execSTX dv c AddrAbsolute)
      else if opcode = 0x84 then Some (execSTY dv c AddrZeroPage)
      else if opcode = 0x94 then Some (execSTY dv c AddrZeroPageX)
      else if opcode = 0x8C then Some (execSTY dv c AddrAbsolute)
      else if opcode = 0xEA then Some (execNOP c)
      else None)"

text \<open>
  \<open>func (c *CPU) Step() int\<close>.  A pending NMI is serviced; a pending IRQ with the
  I flag clear is cleared and not serviced (the call of \<open>handleIRQ\<close> and the
  \<open>return 7\<close> are commented out in the source), and the instruction at \<open>PC\<close> is
  fetched and executed.
\<close>

definition CPU_Step ::
  "('p, 'a, 'c, 'i) Devices \<Rightarrow> ('p, 'a, 'c, 'i) CPU
     \<Rightarrow> (int \<times> ('p, 'a, 'c, 'i) CPU) option" where
  "CPU_Step dv c =
     (if cpu_NMI c then Some (7, (handleNMI dv c)\<lparr>cpu_NMI := False\<rparr>)
      else
        (let c0 = (if cpu_IRQ c \<and> \<not> getFlag c FlagInterrupt then c\<lparr>cpu_IRQ := False\<rparr> else c);
             (opcode, c1) = cpu_read dv c0 (cpu_PC c0);
             c2 = c1\<lparr>cpu_PC := cpu_PC c1 + 1\<rparr>
         in case executeInstruction dv c2 opcode of
              None \<Rightarrow> None
            | Some (cycles, c3) \<Rightarrow> Some (cycles, c3\<lparr>cpu_Cycles := cpu_Cycles c3 + cycles\<rparr>)))"

section \<open>Scenario helpers\<close>

text \<open>
  A cartridge whose mapper is a \<open>Mapper0\<close>, seen from the CPU bus: the bus calls
  \<open>Cartridge.ReadPRG\<close>, which calls \<open>Mapper0.ReadPRG\<close>; neither changes the
  cartridge.
\<close>

definition NROM_ReadPRG :: "Mapper0 Cartridge \<Rightarrow> u16 \<Rightarrow> u8 \<times> Mapper0 Cartridge" where
  "NROM_ReadPRG = Cartridge_ReadPRG (\<lambda>m addr. (Mapper0_ReadPRG m addr, m))"

definition NROM_WritePRG :: "Mapper0 Cartridge \<Rightarrow> u16 \<Rightarrow> u8 \<Rightarrow> Mapper0 Cartridge" where
  "NROM_WritePRG = Cartridge_WritePRG Mapper0_WritePRG (\<lambda>m. Some (m0_cartridge m))"

text \<open>
  A method table for a bus on which a device is absent: its methods are never
  called, and do nothing.  Scenarios replace the entries of the devices they attach.
\<close>

definition idle_Devices :: "('p, 'a, 'c, 'i) Devices" where
  "idle_Devices =
     \<lparr>ppuReadRegister = (\<lambda>p addr. (0, p)), ppuWriteRegister = (\<lambda>p addr val. p),
      apuReadRegister = (\<lambda>a addr. (0, a)), apuWriteRegister = (\<lambda>a addr val. a),
      cartReadPRG = (\<lambda>c addr. (0, c)), cartWritePRG = (\<lambda>c addr val. c),
      inputRead = (\<lambda>i. (0, i)), inputWrite = (\<lambda>i val. i)\<rparr>"

text \<open>
  Scenario C of the specification: a 16 KiB PRG bank with byte \<open>$42\<close> at
  \<open>PRG[0]\<close>, on a bus with only the cartridge attached.
\<close>

definition scenarioC_data :: CartridgeData where
  "scenarioC_data = \<lparr>PRGROM = 0x42 # replicate 16383 0, CHRROM = [], PRGRAM = [], CHRRAM = []\<rparr>"

definition scenarioC_cart :: "Mapper0 Cartridge" where
  "scenarioC_cart =
     \<lparr>c_PRGROM = PRGROM scenarioC_data, c_CHRROM = [], c_PRGRAM = [], c_CHRRAM = [],
      c_Header = \<lparr>Magic = [0x4E, 0x45, 0x53, 0x1A], PRGROMSize = 1, CHRROMSize = 0,
                  Flags6 = 0, Flags7 = 0, Flags8 = 0, Flags9 = 0, Flags10 = 0,
                  Padding = [0, 0, 0, 0, 0]\<rparr>,
      c_Mapper = Some (NewMapper0 scenarioC_data), c_Mirroring = MirroringHorizontal\<rparr>"

definition scenarioC_mem :: "(unit, unit, Mapper0 Cartridge, unit) Memory" where
  "scenarioC_mem = Memory_New\<lparr>mem_Cartridge := Some scenarioC_cart\<rparr>"

text \<open>
  Two iNES images of 16 bytes: a header with no PRG and no CHR banks, with mapper
  number 5 (\<open>Flags6 = $50\<close>) and with mapper number 0.
\<close>

definition ines_mapper5 :: "u8 list" where
  "ines_mapper5 = [0x4E, 0x45, 0x53, 0x1A, 0x00, 0x00, 0x50, 0x00, 0, 0, 0, 0, 0, 0, 0, 0]"

definition ines_mapper0 :: "u8 list" where
  "ines_mapper0 = [0x4E, 0x45, 0x53, 0x1A, 0x00, 0x00, 0x00, 0x00, 0, 0, 0, 0, 0, 0, 0, 0]"

text \<open>
  What drives an MMC3 from outside: the PPU reports the state of A12 with
  \<open>NotifyA12(chrAddr, renderingEnabled)\<close>, a CPU write to \<open>$6000\<close>-\<open>$FFFF\<close> goes to
  \<open>WritePRG\<close>, and \<open>PPU.Step\<close> calls \<open>Step\<close> at the start of each visible scanline.
  A run stops with \<open>None\<close> when a call panics.
\<close>

datatype mmc3_event = A12 u16 bool | RegWrite u16 u8 | ScanlineStep

fun mmc3_run :: "Mapper4 \<Rightarrow> mmc3_event list \<Rightarrow> Mapper4 option" where
  "mmc3_run m [] = Some m"
| "mmc3_run m (A12 chrAddr rendering # es) =
     (case Mapper4_NotifyA12 m chrAddr rendering of
        None \<Rightarrow> None | Some m' \<Rightarrow> mmc3_run m' es)"
| "mmc3_run m (RegWrite addr val # es) =
     (case Mapper4_WritePRG m addr val of None \<Rightarrow> None | Some m' \<Rightarrow> mmc3_run m' es)"
| "mmc3_run m (ScanlineStep # es) = mmc3_run (Mapper4_Step m) es"

text \<open>A sequence of A12 notifications, each an address and the rendering flag.\<close>

definition a12_notifications :: "(u16 \<times> bool) list \<Rightarrow> mmc3_event list" where
  "a12_notifications ns = map (\<lambda>(chrAddr, rendering). A12 chrAddr rendering) ns"

text \<open>
  One rising edge of A12 after a low period, rendering enabled: eight notifications
  of a fetch from pattern table \<open>$0000\<close>, then one from \<open>$1000\<close>.  Scenario F of the
  specification drives the mapper with five of them.
\<close>

definition a12_low_period :: "(u16 \<times> bool) list" where
  "a12_low_period = replicate 8 (0x0000, True)"

definition a12_rising_edge :: "(u16 \<times> bool) list" where
  "a12_rising_edge = a12_low_period @ [(0x1000, True)]"

definition scenarioF_edges :: "(u16 \<times> bool) list" where
  "scenarioF_edges = concat (replicate 5 a12_rising_edge)"

definition scenarioF_mapper :: Mapper4 where
  "scenarioF_mapper = NewMapper4 \<lparr>PRGROM = [], CHRROM = [], PRGRAM = [], CHRRAM = []\<rparr>"

text \<open>Latch \<open>L\<close> to \<open>$C000\<close>, any value to \<open>$C001\<close> (reload) and to \<open>$E001\<close> (enable).\<close>

definition mmc3_irq_setup :: "Mapper4 \<Rightarrow> u8 \<Rightarrow> u8 \<Rightarrow> u8 \<Rightarrow> Mapper4 option" where
  "mmc3_irq_setup m L a b =
     mmc3_run m [RegWrite 0xC000 L, RegWrite 0xC001 a, RegWrite 0xE001 b]"

text \<open>A write that lands on the IRQ-disable register (\<open>$E000\<close>-\<open>$FFFE\<close>, even).\<close>

definition irq_ack_write :: "mmc3_event \<Rightarrow> bool" where
  "irq_ack_write e =
     (case e of A12 chrAddr rendering \<Rightarrow> False
      | RegWrite addr val \<Rightarrow> addr \<ge> 0x8000 \<and> addr AND 0xE001 = 0xE000
      | ScanlineStep \<Rightarrow> False)"

text \<open>
  A method table for a PPU without a cartridge, or with one that does nothing and
  reports mirroring mode 0 (horizontal).
\<close>

definition idle_PPUCart :: "'c PPUCart" where
  "idle_PPUCart =
     \<lparr>cartReadCHR = (\<lambda>c addr. (0, c)), cartWriteCHR = (\<lambda>c addr val. c),
      cartStep = (\<lambda>c. c), cartIsIRQPending = (\<lambda>c. (False, c)), cartClearIRQ = (\<lambda>c. c),
      cartGetMirroring = (\<lambda>c. (0, c)), cartNotifyA12 = (\<lambda>c addr r. c)\<rparr>"

text \<open>The PPU as \<open>New\<close> and \<open>Reset\<close> leave it, with no cartridge (the tests' PPU).\<close>

definition bare_PPU :: "unit PPU" where
  "bare_PPU = PPU_Reset PPU_New"

text \<open>A sequence of CPU writes to PPU registers, in order.\<close>

fun ppu_writes :: "'c PPUCart \<Rightarrow> 'c PPU \<Rightarrow> (u16 \<times> u8) list \<Rightarrow> 'c PPU" where
  "ppu_writes co p [] = p"
| "ppu_writes co p ((addr, val) # ws) = ppu_writes co (PPU_WriteRegister co p addr val) ws"

text \<open>
  Scenario E of the specification: \<open>PPUCTRL = $00\<close>, \<open>PPUSCROLL = $7D\<close>,
  \<open>PPUSCROLL = $5E\<close>, \<open>PPUADDR = $3D\<close>, \<open>PPUADDR = $F0\<close>.
\<close>

definition scroll_latch_writes :: "'c PPUCart \<Rightarrow> 'c PPU \<Rightarrow> 'c PPU" where
  "scroll_latch_writes co p =
     ppu_writes co p
       [(0x2000, 0x00), (0x2005, 0x7D), (0x2005, 0x5E), (0x2006, 0x3D), (0x2006, 0xF0)]"

text \<open>
  A PPUDATA access sequence that runs \<open>v\<close> past \<open>$3FFF\<close>: store \<open>$55\<close> at
  \<open>$2FFF\<close>, then point PPUADDR at \<open>$3FFF\<close>.
\<close>

definition ppudata_wrap_setup :: "unit PPU" where
  "ppudata_wrap_setup =
     ppu_writes idle_PPUCart bare_PPU
       [(0x2006, 0x2F), (0x2006, 0xFF), (0x2007, 0x55), (0x2006, 0x3F), (0x2006, 0xFF)]"






text \<open>
  The bus as \<open>NewNES\<close> wires it on the PPU side: the PPU's \<open>ReadRegister\<close> and
  \<open>WriteRegister\<close> behind \<open>PPU\<close>.
\<close>

definition ppu_bus ::
  "'c PPUCart \<Rightarrow> ('c PPU, 'a, 'k, 'i) Devices \<Rightarrow> ('c PPU, 'a, 'k, 'i) Devices" where
  "ppu_bus co dv =
     dv\<lparr>ppuReadRegister := PPU_ReadRegister co, ppuWriteRegister := PPU_WriteRegister co\<rparr>"

text \<open>
  A CPU page whose bytes are plain memory: a page of the internal RAM
  (\<open>$00\<close>-\<open>$1F\<close>), or a page from \<open>$60\<close> up that is the test memory (no
  cartridge) or a cartridge whose \<open>ReadPRG\<close> does not change it.
\<close>

definition plain_page :: "('p, 'a, 'k, 'i) Devices \<Rightarrow> ('p, 'a, 'k, 'i) Memory \<Rightarrow> u8 \<Rightarrow> bool" where
  "plain_page dv m page =
     (page < 0x20 \<or>
      (page \<ge> 0x60 \<and>
       (case mem_Cartridge m of None \<Rightarrow> True
        | Some c \<Rightarrow> \<forall>addr. snd (cartReadPRG dv c addr) = c)))"

text \<open>
  A CPU about to run \<open>STA $4014\<close> (bytes \<open>8D 14 40\<close> at \<open>$0000\<close>) with
  \<open>A = $02\<close>, on an odd cycle count, with the bare PPU on the bus and \<open>$AB\<close> at
  \<open>$0200\<close>.
\<close>

definition dma_mem :: "(unit PPU, unit, unit, unit) Memory" where
  "dma_mem =
     Memory_New\<lparr>RAM := (\<lambda>a. if a = 0x000 then 0x8D else if a = 0x001 then 0x14
                          else if a = 0x002 then 0x40 else if a = 0x200 then 0xAB else 0),
                mem_PPU := Some bare_PPU\<rparr>"

definition dma_cpu :: "(unit PPU, unit, unit, unit) CPU" where
  "dma_cpu = (CPU_New dma_mem)\<lparr>cpu_A := 0x02, cpu_Cycles := 1\<rparr>"

text \<open>
  A CPU as the unit tests build it (no devices, test memory above \<open>$6000\<close>), with
  \<open>NOP\<close> at \<open>PC = $0200\<close>, the IRQ vector pointing to \<open>$8000\<close>, the I flag
  clear (\<open>P = $20\<close>) and the IRQ line asserted.
\<close>

definition irq_cpu :: "(unit, unit, unit, unit) CPU" where
  "irq_cpu =
     (CPU_New (Memory_New\<lparr>RAM := (\<lambda>a. if a = 0x200 then 0xEA else 0),
                          HighMem := (\<lambda>a. if a = 0x9FFF then 0x80 else 0)\<rparr>))
       \<lparr>cpu_PC := 0x0200, cpu_P := 0x20, cpu_IRQ := True\<rparr>"

text \<open>
  What of the PPU's state the vertical-blank events are about: the scanline and dot
  counters, PPUCTRL, the NMI request and bit 7 of PPUSTATUS.
\<close>

definition timing :: "'c PPU \<Rightarrow> int \<times> int \<times> u8 \<times> bool \<times> u8" where
  "timing p = (Scanline p, Cycle p, PPUCTRL p, NMIRequested p, PPUSTATUS p AND 0x80)"

text \<open>
  Two states of a running frame.  The last dot of the post-render scanline 240, with
  NMI generation enabled and sprite-0 hit set; the last dot of scanline 260, in
  vertical blank and with sprite overflow set.
\<close>

definition vblank_eve :: "unit PPU" where
  "vblank_eve = bare_PPU\<lparr>PPUCTRL := 0x80, PPUSTATUS := 0x40, Cycle := 340, Scanline := 240\<rparr>"

definition frame_end :: "unit PPU" where
  "frame_end = bare_PPU\<lparr>PPUSTATUS := 0xA0, Cycle := 340, Scanline := 260\<rparr>"

section \<open>Mapper 0: the 16 KiB mirror\<close>

lemma Mapper0_ReadPRG_low:
  assumes "length (PRGROM (m0_cartridge mp)) = 16384" and "k \<le> 0x3FFF"
  shows "Mapper0_ReadPRG mp (0x8000 + k) = PRGROM (m0_cartridge mp) ! unat k"
proof -
  have k: "unat k < 16384" using assms(2) by (simp add: word_le_nat_alt)
  have ge: "(0x8000 :: u16) \<le> 0x8000 + k"
    using k by (simp add: word_le_nat_alt unat_word_ariths)
  have md: "k mod 16384 = k"
    apply (rule word_unat_eq_iff[THEN iffD2])
    using k by (simp add: unat_mod)
  show ?thesis
    using assms(1) k ge md by (simp add: Mapper0_ReadPRG_def Let_def)
qed

lemma Mapper0_ReadPRG_high:
  assumes "length (PRGROM (m0_cartridge mp)) = 16384" and "k \<le> 0x3FFF"
  shows "Mapper0_ReadPRG mp (0xC000 + k) = PRGROM (m0_cartridge mp) ! unat k"
proof -
  have k: "unat k < 16384" using assms(2) by (simp add: word_le_nat_alt)
  have ge: "(0x8000 :: u16) \<le> 0xC000 + k"
    using k by (simp add: word_le_nat_alt unat_word_ariths)
  have eq: "0xC000 + k - 0x8000 = 0x4000 + k" by simp
  have u: "unat (0x4000 + k) = 16384 + unat k"
    using k by (simp add: unat_word_ariths)
  have md: "(0x4000 + k) mod 16384 = k"
    apply (rule word_unat_eq_iff[THEN iffD2])
    using k u by (simp add: unat_mod)
  show ?thesis
    using assms(1) k ge md by (simp add: Mapper0_ReadPRG_def Let_def eq)
qed

text \<open>
  Claim C9.  For Mapper 0 with a 16 KiB PRG-ROM, a CPU read of \<open>$8000 + k\<close> and a
  CPU read of \<open>$C000 + k\<close> return the same byte, \<open>PRGROM[k]\<close>, for every
  \<open>k\<close> in \<open>0..$3FFF\<close>, and leave the bus as it was.
\<close>

theorem nrom128_mirror:
  assumes "mem_Cartridge m = Some c" and "c_Mapper c = Some mp"
    and "length (PRGROM (m0_cartridge mp)) = 16384" and "k \<le> 0x3FFF"
  shows "Memory_Read (dv\<lparr>cartReadPRG := NROM_ReadPRG\<rparr>) m (0x8000 + k)
           = (PRGROM (m0_cartridge mp) ! unat k, m)
       \<and> Memory_Read (dv\<lparr>cartReadPRG := NROM_ReadPRG\<rparr>) m (0xC000 + k)
           = (PRGROM (m0_cartridge mp) ! unat k, m)"
proof -
  have k: "unat k < 16384" using assms(4) by (simp add: word_le_nat_alt)
  have a: "\<not> (0x8000 + k < (0x2000 :: u16))" "(0x6000 :: u16) \<le> 0x8000 + k"
          "\<not> (0xC000 + k < (0x2000 :: u16))" "(0x6000 :: u16) \<le> 0xC000 + k"
    using k by (simp_all add: word_le_nat_alt word_less_nat_alt unat_word_ariths)
  have c: "c\<lparr>c_Mapper := Some mp\<rparr> = c" using assms(2) by simp
  have m: "m\<lparr>mem_Cartridge := Some c\<rparr> = m" using assms(1) by simp
  show ?thesis
    using assms(1,2) a c m
    by (simp add: Memory_Read_def NROM_ReadPRG_def Cartridge_ReadPRG_def
        Mapper0_ReadPRG_low[OF assms(3,4)] Mapper0_ReadPRG_high[OF assms(3,4)])
qed

theorem nrom128_mirror_witness:
  "Memory_Read (idle_Devices\<lparr>cartReadPRG := NROM_ReadPRG\<rparr>) scenarioC_mem 0x8000
     = (0x42, scenarioC_mem)
   \<and> Memory_Read (idle_Devices\<lparr>cartReadPRG := NROM_ReadPRG\<rparr>) scenarioC_mem 0xC000
     = (0x42, scenarioC_mem)"
proof -
  have h: "mem_Cartridge scenarioC_mem = Some scenarioC_cart"
    "c_Mapper scenarioC_cart = Some (NewMapper0 scenarioC_data)"
    "length (PRGROM (m0_cartridge (NewMapper0 scenarioC_data))) = 16384"
    "(0 :: u16) \<le> 0x3FFF"
    by (simp_all add: scenarioC_mem_def scenarioC_cart_def scenarioC_data_def NewMapper0_def)
  from nrom128_mirror[OF h, of idle_Devices] show ?thesis
    by (simp add: NewMapper0_def scenarioC_data_def)
qed

text \<open>
  A store to PRG-RAM through the cartridge shows in the cartridge's own \<open>PRGRAM\<close>,
  the slice the mapper was given.
\<close>

lemma nrom_write_shows_in_cartridge:
  assumes "c_Mapper c = Some m"
  shows "c_Mapper (NROM_WritePRG c addr val) = Some (Mapper0_WritePRG m addr val)
       \<and> c_PRGRAM (NROM_WritePRG c addr val)
           = PRGRAM (m0_cartridge (Mapper0_WritePRG m addr val))"
  using assms by (simp add: NROM_WritePRG_def Cartridge_WritePRG_def Let_def)

section \<open>MMC3: the IRQ counter and the A12 notifications\<close>

lemma mmc3_irq_setup_eq:
  "mmc3_irq_setup m L a b =
     Some (m\<lparr>irqReloadValue := L, irqReloadFlag := True, irqCounter := 0, irqEnabled := True\<rparr>)"
  by (simp add: mmc3_irq_setup_def Mapper4_WritePRG_def)

lemma Step_pending_mono: "irqPending m \<Longrightarrow> irqPending (Mapper4_Step m)"
  by (simp add: Mapper4_Step_def Let_def)

lemma Steps_pending_mono: "irqPending m \<Longrightarrow> irqPending ((Mapper4_Step ^^ n) m)"
  by (induction n) (simp_all add: Step_pending_mono)

lemma Step_reload:
  assumes "irqReloadFlag m" "irqEnabled m" "isSharpMMC3 m"
  shows "irqCounter (Mapper4_Step m) = irqReloadValue m"
    and "\<not> irqReloadFlag (Mapper4_Step m)"
    and "irqEnabled (Mapper4_Step m)" and "isSharpMMC3 (Mapper4_Step m)"
    and "irqPending (Mapper4_Step m) = (irqPending m \<or> irqReloadValue m = 0)"
  using assms by (auto simp add: Mapper4_Step_def Let_def)

lemma Step_count:
  assumes "\<not> irqReloadFlag m" "irqEnabled m" "isSharpMMC3 m" "irqCounter m \<noteq> 0"
  shows "irqCounter (Mapper4_Step m) = irqCounter m - 1"
    and "\<not> irqReloadFlag (Mapper4_Step m)"
    and "irqEnabled (Mapper4_Step m)" and "isSharpMMC3 (Mapper4_Step m)"
    and "irqPending (Mapper4_Step m) = (irqPending m \<or> irqCounter m = 1)"
  using assms by (auto simp add: Mapper4_Step_def Let_def)

lemma Step_countdown:
  assumes "\<not> irqReloadFlag m" "irqEnabled m" "isSharpMMC3 m" "k \<le> unat (irqCounter m)"
  shows "irqCounter ((Mapper4_Step ^^ k) m) = irqCounter m - of_nat k
       \<and> \<not> irqReloadFlag ((Mapper4_Step ^^ k) m)
       \<and> irqEnabled ((Mapper4_Step ^^ k) m) \<and> isSharpMMC3 ((Mapper4_Step ^^ k) m)
       \<and> irqPending ((Mapper4_Step ^^ k) m)
           = (irqPending m \<or> (0 < k \<and> k = unat (irqCounter m)))"
  using assms(4)
proof (induction k)
  case 0
  then show ?case using assms(1-3) by simp
next
  case (Suc k)
  let ?s = "(Mapper4_Step ^^ k) m"
  have IH: "irqCounter ?s = irqCounter m - of_nat k" "\<not> irqReloadFlag ?s" "irqEnabled ?s"
    "isSharpMMC3 ?s" "irqPending ?s = (irqPending m \<or> (0 < k \<and> k = unat (irqCounter m)))"
    using Suc by simp_all
  have klt: "k < unat (irqCounter m)" using Suc.prems by simp
  have uk: "unat (of_nat k :: u8) = k"
    using klt unsigned_less[of "irqCounter m", where 'a=nat] by (simp add: unat_of_nat)
  have le: "(of_nat k :: u8) \<le> irqCounter m"
    using klt uk by (simp add: word_le_nat_alt)
  have usub: "unat (irqCounter m - of_nat k) = unat (irqCounter m) - k"
    using le uk by (simp add: unat_sub)
  have "0 < unat (irqCounter ?s)" using IH(1) usub klt by simp
  then have nz: "irqCounter ?s \<noteq> 0" using unat_gt_0 by blast
  have one: "(irqCounter ?s = 1) = (Suc k = unat (irqCounter m))"
  proof -
    have "(irqCounter ?s = 1) = (unat (irqCounter ?s) = unat (1 :: u8))"
      by (rule word_unat_eq_iff)
    then have "(irqCounter ?s = 1) = (unat (irqCounter ?s) = 1)" by simp
    also have "\<dots> = (Suc k = unat (irqCounter m))"
      using IH(1) usub klt by auto
    finally show ?thesis .
  qed
  note st = Step_count[OF IH(2) IH(3) IH(4) nz]
  have c: "irqCounter (Mapper4_Step ?s) = irqCounter m - of_nat (Suc k)"
    using st(1) IH(1) by simp
  have p: "irqPending (Mapper4_Step ?s)
             = (irqPending m \<or> (0 < Suc k \<and> Suc k = unat (irqCounter m)))"
    using st(5) IH(5) one klt by auto
  show ?case using c p st(2,3,4) by simp
qed

lemma edges_after_reload:
  assumes "irqReloadFlag m" "irqEnabled m" "isSharpMMC3 m" "irqCounter m = 0"
  shows "irqPending ((Mapper4_Step ^^ n) m)
           = (irqPending m \<or> unat (irqReloadValue m) + 1 \<le> n)"
proof (cases n)
  case 0
  then show ?thesis by simp
next
  case (Suc j)
  let ?s = "Mapper4_Step m"
  note f = Step_reload[OF assms(1-3)]
  have eq: "(Mapper4_Step ^^ n) m = (Mapper4_Step ^^ j) ?s"
    using Suc by (simp add: funpow_swap1)
  show ?thesis
  proof (cases "j \<le> unat (irqCounter ?s)")
    case True
    from Step_countdown[OF f(2) f(3) f(4) True]
    have "irqPending ((Mapper4_Step ^^ j) ?s)
            = (irqPending ?s \<or> (0 < j \<and> j = unat (irqCounter ?s)))" by simp
    then show ?thesis
      using eq f(1) f(5) True Suc by (auto simp: unat_eq_0)
  next
    case False
    let ?c = "unat (irqCounter ?s)"
    have split: "j = (j - ?c) + ?c" using False by simp
    have "irqPending ((Mapper4_Step ^^ ?c) ?s)"
    proof (cases "?c = 0")
      case True
      then show ?thesis using f(1) f(5) by (simp add: unat_eq_0)
    next
      case F: False
      from Step_countdown[OF f(2) f(3) f(4) order_refl] F show ?thesis by simp
    qed
    then have "irqPending ((Mapper4_Step ^^ (j - ?c)) ((Mapper4_Step ^^ ?c) ?s))"
      by (rule Steps_pending_mono)
    then have "irqPending ((Mapper4_Step ^^ j) ?s)"
      by (metis split funpow_add o_apply)
    then show ?thesis using eq False f(1) Suc by simp
  qed
qed

lemma WritePRG_keeps_pending:
  "Mapper4_WritePRG m addr val = Some m' \<Longrightarrow> \<not> (addr \<ge> 0x8000 \<and> addr AND 0xE001 = 0xE000)
     \<Longrightarrow> irqPending m' = irqPending m"
  by (auto simp add: Mapper4_WritePRG_def Let_def split: if_splits)

lemma WritePRG_E000:
  "Mapper4_WritePRG m 0xE000 val = Some (m\<lparr>irqEnabled := False, irqPending := False\<rparr>)"
  by (simp add: Mapper4_WritePRG_def)

subsection \<open>A12 notifications never reach \<open>Step\<close>\<close>

text \<open>
  On a high notification the history entry at the old position has just been set
  and the position advanced, so the first entry the second loop looks at
  (\<open>i = 1\<close>) is that very entry.
\<close>

lemma validTransition_after_store:
  assumes "0 \<le> pos" and "pos < 8"
  shows "\<not> validTransition (h(nat pos := True)) (rem (pos + 1) 8) 1 3"
proof -
  have "pos = 0 \<or> pos = 1 \<or> pos = 2 \<or> pos = 3 \<or> pos = 4 \<or> pos = 5 \<or> pos = 6 \<or> pos = 7"
    using assms by arith
  then have "nat (rem (rem (pos + 1) 8 - 1 + 8) 8) = nat pos"
    by (elim disjE) (simp_all add: rem_def quot_def)
  then show ?thesis by (simp add: numeral_3_eq_3)
qed

lemma rem_8_range:
  assumes "0 \<le> pos" and "pos < 8"
  shows "0 \<le> rem (pos + 1) 8 \<and> rem (pos + 1) 8 < 8"
proof -
  have "pos = 0 \<or> pos = 1 \<or> pos = 2 \<or> pos = 3 \<or> pos = 4 \<or> pos = 5 \<or> pos = 6 \<or> pos = 7"
    using assms by arith
  then show ?thesis by (elim disjE) (simp_all add: rem_def quot_def)
qed

lemma NotifyA12_off: "Mapper4_NotifyA12 m chrAddr False = Some m"
  by (simp add: Mapper4_NotifyA12_def)

lemma NotifyA12_panics:
  "a12HistoryPos m < 0 \<or> a12HistoryPos m \<ge> 8 \<Longrightarrow> Mapper4_NotifyA12 m chrAddr True = None"
  by (simp add: Mapper4_NotifyA12_def Let_def)

lemma NotifyA12_high:
  assumes "0 \<le> a12HistoryPos m" and "a12HistoryPos m < 8" and "chrAddr AND 0x1000 \<noteq> 0"
  shows "Mapper4_NotifyA12 m chrAddr True =
     Some (m\<lparr>m2CycleCount := m2CycleCount m + 1,
             a12History := (a12History m)(nat (a12HistoryPos m) := True),
             a12HistoryPos := rem (a12HistoryPos m + 1) 8,
             a12LowCounter := 0, a12FilterPass := False, a12Low := False\<rparr>)"
  using assms validTransition_after_store[OF assms(1,2), of "a12History m"]
  by (simp add: Mapper4_NotifyA12_def Let_def)

lemma NotifyA12_low:
  assumes "0 \<le> a12HistoryPos m" and "a12HistoryPos m < 8" and "chrAddr AND 0x1000 = 0"
  shows "Mapper4_NotifyA12 m chrAddr True =
     Some (m\<lparr>m2CycleCount := m2CycleCount m + 1,
             a12History := (a12History m)(nat (a12HistoryPos m) := False),
             a12HistoryPos := rem (a12HistoryPos m + 1) 8,
             a12LowCounter := a12LowCounter m + 1,
             a12FilterPass := (a12FilterPass m \<or>
                consecutiveLow ((a12History m)(nat (a12HistoryPos m) := False)) 0 8 \<ge> 6),
             a12Low := True\<rparr>)"
  using assms by (simp add: Mapper4_NotifyA12_def Let_def)

lemma NotifyA12_cases:
  "(\<not> r \<and> Mapper4_NotifyA12 m chrAddr r = Some m)
   \<or> (r \<and> (a12HistoryPos m < 0 \<or> a12HistoryPos m \<ge> 8) \<and> Mapper4_NotifyA12 m chrAddr r = None)
   \<or> (r \<and> 0 \<le> a12HistoryPos m \<and> a12HistoryPos m < 8
        \<and> (\<exists>c h f l. Mapper4_NotifyA12 m chrAddr r =
              Some (m\<lparr>m2CycleCount := c, a12History := h,
                      a12HistoryPos := rem (a12HistoryPos m + 1) 8,
                      a12LowCounter := l, a12FilterPass := f,
                      a12Low := (chrAddr AND 0x1000 = 0)\<rparr>)))"
proof (cases r)
  case False
  then show ?thesis by (simp add: NotifyA12_off)
next
  case True
  show ?thesis
  proof (cases "0 \<le> a12HistoryPos m \<and> a12HistoryPos m < 8")
    case False
    then have "a12HistoryPos m < 0 \<or> a12HistoryPos m \<ge> 8" by arith
    then show ?thesis using True NotifyA12_panics[of m chrAddr] by simp
  next
    case range: True
    then have p: "0 \<le> a12HistoryPos m" "a12HistoryPos m < 8" by simp_all
    show ?thesis
    proof (cases "chrAddr AND 0x1000 = 0")
      case low: True
      show ?thesis
        using True p low NotifyA12_low[OF p low] by auto
    next
      case high: False
      have "Mapper4_NotifyA12 m chrAddr True =
              Some (m\<lparr>m2CycleCount := m2CycleCount m + 1,
                a12History := (a12History m)(nat (a12HistoryPos m) := True),
                a12HistoryPos := rem (a12HistoryPos m + 1) 8,
                a12LowCounter := 0, a12FilterPass := False,
                a12Low := (chrAddr AND 0x1000 = 0)\<rparr>)"
        using NotifyA12_high[OF p high] high by simp
      then show ?thesis using True p by auto
    qed
  qed
qed

lemma NotifyA12_never_clocks:
  assumes "Mapper4_NotifyA12 m chrAddr r = Some m'"
  shows "irqPending m' = irqPending m \<and> irqCounter m' = irqCounter m
       \<and> irqReloadFlag m' = irqReloadFlag m"
  using NotifyA12_cases[of r m chrAddr] assms by auto

lemma NotifyA12_returns:
  assumes "0 \<le> a12HistoryPos m" and "a12HistoryPos m < 8"
  shows "\<exists>m'. Mapper4_NotifyA12 m chrAddr r = Some m'
            \<and> 0 \<le> a12HistoryPos m' \<and> a12HistoryPos m' < 8"
  using NotifyA12_cases[of r m chrAddr] assms rem_8_range[OF assms] by auto

lemma a12_notifications_run:
  assumes "0 \<le> a12HistoryPos m" and "a12HistoryPos m < 8"
  shows "\<exists>m'. mmc3_run m (a12_notifications ns) = Some m'
            \<and> irqPending m' = irqPending m \<and> irqCounter m' = irqCounter m
            \<and> irqReloadFlag m' = irqReloadFlag m"
  using assms
proof (induction ns arbitrary: m)
  case Nil
  then show ?case by (simp add: a12_notifications_def)
next
  case (Cons n ns)
  obtain chrAddr r where n: "n = (chrAddr, r)" by (cases n)
  from NotifyA12_returns[OF Cons.prems, of chrAddr r] obtain m1 where
    m1: "Mapper4_NotifyA12 m chrAddr r = Some m1"
    and p: "0 \<le> a12HistoryPos m1" "a12HistoryPos m1 < 8"
    by blast
  note k = NotifyA12_never_clocks[OF m1]
  from Cons.IH[OF p] obtain m' where
    r: "mmc3_run m1 (a12_notifications ns) = Some m'"
    and q: "irqPending m' = irqPending m1" "irqCounter m' = irqCounter m1"
      "irqReloadFlag m' = irqReloadFlag m1"
    by blast
  have "mmc3_run m (a12_notifications (n # ns)) = Some m'"
    using m1 r by (simp add: a12_notifications_def n)
  then show ?case using q k by simp
qed

text \<open>
  A low period of eight notifications is one for the filter of \<open>NotifyA12\<close> itself:
  whatever came before, the mapper then holds \<open>a12Low\<close> and \<open>a12FilterPass\<close>,
  which is the condition under which the next high notification goes on to look
  for a valid transition.
\<close>

lemma low_period_passes_filter:
  assumes "0 \<le> a12HistoryPos m" and "a12HistoryPos m < 8"
  shows "\<exists>m'. mmc3_run m (a12_notifications a12_low_period) = Some m'
            \<and> 0 \<le> a12HistoryPos m' \<and> a12HistoryPos m' < 8
            \<and> a12FilterPass m' \<and> a12Low m'"
proof -
  have "a12HistoryPos m = 0 \<or> a12HistoryPos m = 1 \<or> a12HistoryPos m = 2
      \<or> a12HistoryPos m = 3 \<or> a12HistoryPos m = 4 \<or> a12HistoryPos m = 5
      \<or> a12HistoryPos m = 6 \<or> a12HistoryPos m = 7"
    using assms by arith
  then show ?thesis
    by (elim disjE)
      (simp_all add: a12_notifications_def a12_low_period_def eval_nat_numeral NotifyA12_low
        rem_def quot_def)
qed

text \<open>
  Claim C2 fails in the code.  After latch \<open>L\<close> to \<open>$C000\<close>, a write to \<open>$C001\<close> and
  a write to \<open>$E001\<close>, no sequence of A12 notifications, whatever its rising edges
  and low periods, makes the IRQ pending: every one of them returns, the counter is
  never clocked (it is still 0 and the reload that \<open>$C001\<close> asked for is still
  outstanding), and \<open>IsIRQPending\<close> stays false.
\<close>

theorem a12_edges_never_clock_irq:
  assumes "\<not> irqPending m" and "0 \<le> a12HistoryPos m" and "a12HistoryPos m < 8"
  shows "\<exists>m0 m1. mmc3_irq_setup m L a b = Some m0
          \<and> mmc3_run m0 (a12_notifications ns) = Some m1
          \<and> \<not> Mapper4_IsIRQPending m1 \<and> irqCounter m1 = 0 \<and> irqReloadFlag m1
          \<and> irqEnabled m0 \<and> irqReloadValue m0 = L"
proof -
  let ?m0 = "m\<lparr>irqReloadValue := L, irqReloadFlag := True, irqCounter := 0, irqEnabled := True\<rparr>"
  have s: "mmc3_irq_setup m L a b = Some ?m0" by (rule mmc3_irq_setup_eq)
  have p: "0 \<le> a12HistoryPos ?m0" "a12HistoryPos ?m0 < 8" using assms by simp_all
  from a12_notifications_run[OF p, of ns] obtain m1 where
    r: "mmc3_run ?m0 (a12_notifications ns) = Some m1"
    and q: "irqPending m1 = irqPending ?m0" "irqCounter m1 = irqCounter ?m0"
      "irqReloadFlag m1 = irqReloadFlag ?m0"
    by blast
  have "\<not> Mapper4_IsIRQPending m1 \<and> irqCounter m1 = 0 \<and> irqReloadFlag m1"
    using q assms(1) by (simp add: Mapper4_IsIRQPending_def)
  then show ?thesis using s r by simp
qed

theorem a12_edges_never_clock_irq_witness:
  "\<not> irqPending scenarioF_mapper
   \<and> 0 \<le> a12HistoryPos scenarioF_mapper \<and> a12HistoryPos scenarioF_mapper < 8
   \<and> (\<exists>m0 m1. mmc3_irq_setup scenarioF_mapper 3 0 0 = Some m0
          \<and> mmc3_run m0 (a12_notifications scenarioF_edges) = Some m1
          \<and> \<not> Mapper4_IsIRQPending m1 \<and> irqCounter m1 = 0 \<and> irqReloadFlag m1
          \<and> irqEnabled m0 \<and> irqReloadValue m0 = 3)"
proof -
  have h: "\<not> irqPending scenarioF_mapper" "0 \<le> a12HistoryPos scenarioF_mapper"
    "a12HistoryPos scenarioF_mapper < 8"
    by (simp_all add: scenarioF_mapper_def NewMapper4_def)
  from a12_edges_never_clock_irq[OF h, of 3 0 0 scenarioF_edges] h show ?thesis by blast
qed

subsection \<open>\<open>Step\<close> called directly\<close>

lemma mmc3_run_keeps_pending:
  "irqPending m \<Longrightarrow> list_all (\<lambda>e. \<not> irq_ack_write e) es \<Longrightarrow> mmc3_run m es = Some m'
     \<Longrightarrow> irqPending m'"
proof (induction m es rule: mmc3_run.induct)
  case (1 m)
  then show ?case by simp
next
  case (2 m chrAddr r es)
  then show ?case
    by (auto split: option.splits dest: NotifyA12_never_clocks)
next
  case (3 m addr val es)
  then show ?case
    by (auto simp add: irq_ack_write_def split: option.splits dest: WritePRG_keeps_pending)
next
  case (4 m es)
  then show ?case by (simp add: Step_pending_mono)
qed

text \<open>
  \<open>Step\<close> itself counts as the specification says.  On an MMC3 with no IRQ pending
  (Sharp variant, as \<open>NewMapper4\<close> builds it), after latch \<open>L\<close> to \<open>$C000\<close>, a write
  to \<open>$C001\<close> and a write to \<open>$E001\<close>, the IRQ is pending after \<open>n\<close> calls of \<open>Step\<close>
  exactly when \<open>n \<ge> L + 1\<close>.  From then on it stays pending through any further
  notifications, calls of \<open>Step\<close> and register writes other than to the IRQ-disable
  register, and a write to \<open>$E000\<close> clears it.  These calls come from \<open>PPU.Step\<close>,
  one at the start of each visible scanline, and not from an A12 edge.
\<close>

lemma step_calls_irq_after_latch:
  assumes "\<not> irqPending m" and "isSharpMMC3 m"
  shows "\<exists>m0. mmc3_irq_setup m L a b = Some m0
          \<and> (\<forall>n. irqPending ((Mapper4_Step ^^ n) m0) = (unat L + 1 \<le> n))
          \<and> (\<forall>n es m1. unat L + 1 \<le> n \<longrightarrow> list_all (\<lambda>e. \<not> irq_ack_write e) es
                \<longrightarrow> mmc3_run ((Mapper4_Step ^^ n) m0) es = Some m1
                \<longrightarrow> irqPending m1
                    \<and> (\<exists>m2. Mapper4_WritePRG m1 0xE000 v = Some m2 \<and> \<not> irqPending m2))"
proof -
  let ?m0 = "m\<lparr>irqReloadValue := L, irqReloadFlag := True, irqCounter := 0, irqEnabled := True\<rparr>"
  have e: "\<And>n. irqPending ((Mapper4_Step ^^ n) ?m0) = (unat L + 1 \<le> n)"
    using edges_after_reload[of ?m0] assms by simp
  have r: "\<And>n es m1. unat L + 1 \<le> n \<Longrightarrow> list_all (\<lambda>e. \<not> irq_ack_write e) es
                \<Longrightarrow> mmc3_run ((Mapper4_Step ^^ n) ?m0) es = Some m1 \<Longrightarrow> irqPending m1"
    using e mmc3_run_keeps_pending by blast
  show ?thesis
    using mmc3_irq_setup_eq[of m L a b] e r by (auto simp add: WritePRG_E000)
qed

section \<open>The loader and unknown mappers\<close>

lemma NewMapper_Inr:
  "NewMapper n d = Inr mp \<Longrightarrow> n \<in> {0, 1, 2, 3, 4}"
  by (auto simp add: NewMapper_def split: if_splits)

lemma NewMapper_Inl:
  "n \<notin> {0, 1, 2, 3, 4} \<Longrightarrow> NewMapper n d = Inl (UnsupportedMapper n)"
  by (auto simp add: NewMapper_def)

lemma readHeader_flags:
  "readHeader r = Some (h, r') \<Longrightarrow> Flags6 h = r ! 6 \<and> Flags7 h = r ! 7 \<and> 16 \<le> length r"
  by (auto simp add: readHeader_def ReadFull_def split: if_splits)

lemma LoadFromReader_Inr_aux:
  assumes "LoadFromReader r = Inr c"
  shows "\<exists>h r1 mp. readHeader r = Some (h, r1) \<and> c_Header c = h \<and> c_Mapper c = Some mp
     \<and> NewMapper (mapperNumber h) \<lparr>PRGROM = c_PRGROM c, CHRROM = c_CHRROM c,
          PRGRAM = c_PRGRAM c, CHRRAM = c_CHRRAM c\<rparr> = Inr mp"
  using assms unfolding LoadFromReader_def Let_def
  by (auto split: option.splits prod.splits if_splits sum.splits)

lemma LoadFromReader_Inr:
  assumes "LoadFromReader r = Inr c"
  shows "mapperNumber (c_Header c) = drop_bit 4 (r ! 6) OR (r ! 7 AND 0xF0)
       \<and> mapperNumber (c_Header c) \<in> {0, 1, 2, 3, 4}
       \<and> (\<exists>mp. c_Mapper c = Some mp
             \<and> NewMapper (mapperNumber (c_Header c))
                  \<lparr>PRGROM = c_PRGROM c, CHRROM = c_CHRROM c, PRGRAM = c_PRGRAM c,
                   CHRRAM = c_CHRRAM c\<rparr> = Inr mp)"
proof -
  from LoadFromReader_Inr_aux[OF assms] obtain h r1 mp where
    rh: "readHeader r = Some (h, r1)" and hd: "c_Header c = h" and mp: "c_Mapper c = Some mp"
    and nm: "NewMapper (mapperNumber h) \<lparr>PRGROM = c_PRGROM c, CHRROM = c_CHRROM c,
               PRGRAM = c_PRGRAM c, CHRRAM = c_CHRRAM c\<rparr> = Inr mp"
    by blast
  have "mapperNumber h = drop_bit 4 (r ! 6) OR (r ! 7 AND 0xF0)"
    using readHeader_flags[OF rh] by (simp add: mapperNumber_def)
  moreover have "mapperNumber h \<in> {0, 1, 2, 3, 4}" using nm by (rule NewMapper_Inr)
  ultimately show ?thesis using hd mp nm by simp
qed

text \<open>
  Claim C10.  When \<open>LoadFromReader\<close> returns a cartridge, its mapper number is
  \<open>(Flags6 >> 4) | (Flags7 & 0xF0)\<close> of the header bytes 6 and 7, that number
  is one of 0, 1, 2, 3, 4 and the cartridge's mapper is the one \<open>NewMapper\<close>
  builds for it.  When the number is outside that set the loader returns an
  error and no cartridge, and \<open>NewMapper\<close> itself rejects every such number.
\<close>

theorem loader_rejects_unknown_mapper:
  "(\<forall>c. LoadFromReader r = Inr c \<longrightarrow>
        mapperNumber (c_Header c) = drop_bit 4 (r ! 6) OR (r ! 7 AND 0xF0)
      \<and> mapperNumber (c_Header c) \<in> {0, 1, 2, 3, 4}
      \<and> (\<exists>mp. c_Mapper c = Some mp
             \<and> NewMapper (mapperNumber (c_Header c))
                  \<lparr>PRGROM = c_PRGROM c, CHRROM = c_CHRROM c, PRGRAM = c_PRGRAM c,
                   CHRRAM = c_CHRRAM c\<rparr> = Inr mp))
   \<and> (drop_bit 4 (r ! 6) OR (r ! 7 AND 0xF0) \<notin> {0, 1, 2, 3, 4}
        \<longrightarrow> (\<exists>e. LoadFromReader r = Inl e))
   \<and> (\<forall>n d. n \<notin> {0, 1, 2, 3, 4} \<longrightarrow> NewMapper n d = Inl (UnsupportedMapper n))"
proof (intro conjI allI impI)
  fix c assume "LoadFromReader r = Inr c"
  note L = LoadFromReader_Inr[OF this]
  show "mapperNumber (c_Header c) = drop_bit 4 (r ! 6) OR (r ! 7 AND 0xF0)"
    using L by (rule conjunct1)
  show "mapperNumber (c_Header c) \<in> {0, 1, 2, 3, 4}"
    using L by (elim conjE)
  show "\<exists>mp. c_Mapper c = Some mp
             \<and> NewMapper (mapperNumber (c_Header c))
                  \<lparr>PRGROM = c_PRGROM c, CHRROM = c_CHRROM c, PRGRAM = c_PRGRAM c,
                   CHRRAM = c_CHRRAM c\<rparr> = Inr mp"
    using L by (elim conjE)
next
  assume n: "drop_bit 4 (r ! 6) OR (r ! 7 AND 0xF0) \<notin> {0, 1, 2, 3, 4 :: u8}"
  show "\<exists>e. LoadFromReader r = Inl e"
  proof (cases "LoadFromReader r")
    case (Inl e)
    then show ?thesis by blast
  next
    case (Inr c)
    from LoadFromReader_Inr[OF this] have
      "drop_bit 4 (r ! 6) OR (r ! 7 AND 0xF0) \<in> {0, 1, 2, 3, 4 :: u8}" by metis
    with n show ?thesis by contradiction
  qed
next
  fix n :: u8 and d assume "n \<notin> {0, 1, 2, 3, 4}"
  then show "NewMapper n d = Inl (UnsupportedMapper n)" by (rule NewMapper_Inl)
qed

theorem loader_rejects_unknown_mapper_witness:
  "drop_bit 4 (ines_mapper5 ! 6) OR (ines_mapper5 ! 7 AND 0xF0) = (5 :: u8)
   \<and> (5 :: u8) \<notin> {0, 1, 2, 3, 4}
   \<and> LoadFromReader ines_mapper5 = Inl (FailedToCreateMapper (UnsupportedMapper 5))
   \<and> (\<exists>c mp. LoadFromReader ines_mapper0 = Inr c \<and> mapperNumber (c_Header c) = 0
         \<and> c_Mapper c = Some mp
         \<and> NewMapper 0 \<lparr>PRGROM = c_PRGROM c, CHRROM = c_CHRROM c, PRGRAM = c_PRGRAM c,
              CHRRAM = c_CHRRAM c\<rparr> = Inr mp)"
proof -
  have n5: "drop_bit 4 (ines_mapper5 ! 6) OR (ines_mapper5 ! 7 AND 0xF0) = (5 :: u8)"
    by (simp add: ines_mapper5_def)
  have out: "(5 :: u8) \<notin> {0, 1, 2, 3, 4}" by simp
  from loader_rejects_unknown_mapper[of ines_mapper5] n5 out
  obtain e where e: "LoadFromReader ines_mapper5 = Inl e" by auto
  have ev: "LoadFromReader ines_mapper5 = Inl (FailedToCreateMapper (UnsupportedMapper 5))"
    by (simp add: ines_mapper5_def LoadFromReader_def readHeader_def ReadFull_def
        mapperNumber_def NewMapper_def Let_def)
  obtain c where c: "LoadFromReader ines_mapper0 = Inr c"
    by (simp add: ines_mapper0_def LoadFromReader_def readHeader_def ReadFull_def
        mapperNumber_def NewMapper_def Let_def)
  have n0: "drop_bit 4 (ines_mapper0 ! 6) OR (ines_mapper0 ! 7 AND 0xF0) = (0 :: u8)"
    by (simp add: ines_mapper0_def)
  from loader_rejects_unknown_mapper[of ines_mapper0] c
  have f: "mapperNumber (c_Header c)
             = drop_bit 4 (ines_mapper0 ! 6) OR (ines_mapper0 ! 7 AND 0xF0)"
    and g: "\<exists>mp. c_Mapper c = Some mp
             \<and> NewMapper (mapperNumber (c_Header c))
                  \<lparr>PRGROM = c_PRGROM c, CHRROM = c_CHRROM c, PRGRAM = c_PRGRAM c,
                   CHRRAM = c_CHRRAM c\<rparr> = Inr mp"
    by blast+
  have z: "mapperNumber (c_Header c) = 0" using f n0 by simp
  from g obtain mp where "c_Mapper c = Some mp"
    "NewMapper 0 \<lparr>PRGROM = c_PRGROM c, CHRROM = c_CHRROM c, PRGRAM = c_PRGRAM c,
                   CHRRAM = c_CHRRAM c\<rparr> = Inr mp"
    unfolding z by blast
  with z have "\<exists>c mp. LoadFromReader ines_mapper0 = Inr c \<and> mapperNumber (c_Header c) = 0
         \<and> c_Mapper c = Some mp
         \<and> NewMapper 0 \<lparr>PRGROM = c_PRGROM c, CHRROM = c_CHRROM c, PRGRAM = c_PRGRAM c,
              CHRRAM = c_CHRRAM c\<rparr> = Inr mp"
    using c by blast
  then show ?thesis using n5 out ev by blast
qed

section \<open>PPU registers: the scroll and address latch\<close>

lemma scroll_latch_t_bits:
  "((((((t AND 0xF3FF) AND 0xFFE0 OR 0xF) AND 0x8FFF OR 0x6000) AND 0xFC1F OR 0x160)
       AND 0x80FF OR 0x3D00) AND 0xFF00) OR 0xF0 = (t AND 0x8000) OR (0x3DF0 :: u16)"
  by (simp add: bit.conj_disj_distrib2 and.assoc or.assoc)

text \<open>
  Claim C4, as the code has it.  From \<open>w = 0\<close> and \<open>t\<close> within 15 bits, the five
  writes leave \<open>t = $3DF0\<close>, \<open>v = $3DF0\<close> and \<open>w = 0\<close>; the fine-X value 5 of
  the first PPUSCROLL write is in \<open>xTemp\<close>, and \<open>x\<close> is what it was before.
\<close>

theorem scroll_latch_sequence:
  assumes "reg_w p = 0" and "reg_t p AND 0x8000 = 0"
  shows "reg_t (scroll_latch_writes co p) = 0x3DF0
       \<and> reg_v (scroll_latch_writes co p) = 0x3DF0
       \<and> reg_w (scroll_latch_writes co p) = 0
       \<and> reg_xTemp (scroll_latch_writes co p) = 5
       \<and> reg_x (scroll_latch_writes co p) = reg_x p"
  using assms
  by (simp add: scroll_latch_writes_def PPU_WriteRegister_def Let_def scroll_latch_t_bits)

theorem scroll_latch_sequence_witness:
  "reg_w bare_PPU = 0 \<and> reg_t bare_PPU AND 0x8000 = 0
   \<and> reg_t (scroll_latch_writes idle_PPUCart bare_PPU) = 0x3DF0
   \<and> reg_v (scroll_latch_writes idle_PPUCart bare_PPU) = 0x3DF0
   \<and> reg_w (scroll_latch_writes idle_PPUCart bare_PPU) = 0
   \<and> reg_xTemp (scroll_latch_writes idle_PPUCart bare_PPU) = 5
   \<and> reg_x (scroll_latch_writes idle_PPUCart bare_PPU) = 0"
proof -
  have h: "reg_w bare_PPU = 0" "reg_t bare_PPU AND 0x8000 = 0" "reg_x bare_PPU = 0"
    by (simp_all add: bare_PPU_def PPU_Reset_def PPU_New_def)
  from scroll_latch_sequence[OF h(1,2), of idle_PPUCart] h show ?thesis by simp
qed

theorem scroll_latch_x_counterexample:
  "reg_w bare_PPU = 0 \<and> reg_x (scroll_latch_writes idle_PPUCart bare_PPU) \<noteq> 5"
  by (simp add: scroll_latch_writes_def PPU_WriteRegister_def Let_def bare_PPU_def
      PPU_Reset_def PPU_New_def)

section \<open>Nametable mirroring\<close>

lemma and_7FF: "(x :: u16) AND 0x7FF = x mod 0x800"
proof -
  have "(0x7FF :: u16) = mask 11" by (simp add: mask_eq_exp_minus_1)
  then have "x AND 0x7FF = take_bit 11 x" by (simp add: take_bit_eq_mask)
  also have "\<dots> = x mod 0x800" by (simp add: take_bit_eq_mod)
  finally show ?thesis .
qed

lemma mod_800:
  assumes "unat (x :: u16) = n * 2048 + unat k" "unat k < 2048"
  shows "x mod 0x800 = k"
  apply (rule word_unat_eq_iff[THEN iffD2])
  using assms by (simp add: unat_mod)

text \<open>Vertical mirroring folds as the claim says: \<open>$2800\<close> onto \<open>$2000\<close>, \<open>$2C00\<close> onto \<open>$2400\<close>.\<close>

lemma vertical_mirroring_folds:
  assumes "cartGetMirroring co c = (1, c')" "Cartridge p = Some c" "k \<le> 0x3FF"
  shows "fst (mirrorNameTableAddress co p (0x2800 + k)) = 0x2000 + k
       \<and> fst (mirrorNameTableAddress co p (0x2C00 + k)) = 0x2400 + k
       \<and> fst (mirrorNameTableAddress co p (0x2000 + k)) = 0x2000 + k
       \<and> fst (mirrorNameTableAddress co p (0x2400 + k)) = 0x2400 + k"
proof -
  have k: "unat k < 1024" using assms(3) by (simp add: word_le_nat_alt)
  have a: "(0x800 + k) mod 0x800 = k"
    by (rule mod_800[where n=1]) (use k in \<open>simp_all add: unat_word_ariths\<close>)
  have b: "(0xC00 + k) mod 0x800 = 0x400 + k"
    by (rule mod_800[where n=1]) (use k in \<open>simp_all add: unat_word_ariths\<close>)
  have c: "k mod 0x800 = k"
    by (rule mod_800[where n=0]) (use k in \<open>simp_all add: unat_word_ariths\<close>)
  have d: "(0x400 + k) mod 0x800 = 0x400 + k"
    by (rule mod_800[where n=0]) (use k in \<open>simp_all add: unat_word_ariths\<close>)
  show ?thesis
    using assms(1,2) a b c d
    by (simp add: mirrorNameTableAddress_def applyVerticalMirroring_def Let_def and_7FF)
qed

text \<open>
  Horizontal mirroring as \<open>applyHorizontalMirroring\<close> computes it: \<open>$2000\<close> and
  \<open>$2400\<close> keep their own pages, \<open>$2800\<close> lands on the page of \<open>$2400\<close> and
  \<open>$2C00\<close> on the page at \<open>$2800\<close>.
\<close>

lemma horizontal_mirroring_actual:
  assumes "cartGetMirroring co c = (0, c')" "Cartridge p = Some c" "k \<le> 0x3FF"
  shows "fst (mirrorNameTableAddress co p (0x2000 + k)) = 0x2000 + k
       \<and> fst (mirrorNameTableAddress co p (0x2400 + k)) = 0x2400 + k
       \<and> fst (mirrorNameTableAddress co p (0x2800 + k)) = 0x2400 + k
       \<and> fst (mirrorNameTableAddress co p (0x2C00 + k)) = 0x2800 + k"
proof -
  have k: "unat k < 1024" using assms(3) by (simp add: word_le_nat_alt)
  have c: "k mod 0x800 = k"
    by (rule mod_800[where n=0]) (use k in \<open>simp_all add: unat_word_ariths\<close>)
  have d: "(0x400 + k) mod 0x800 = 0x400 + k"
    by (rule mod_800[where n=0]) (use k in \<open>simp_all add: unat_word_ariths\<close>)
  have g: "\<not> (0x800 \<le> k)" "\<not> (0x800 \<le> 0x400 + k)" "0x800 \<le> 0x800 + k" "0x800 \<le> 0xC00 + k"
    using k by (simp_all add: word_le_nat_alt unat_word_ariths)
  show ?thesis
    using assms(1,2) c d g
    by (simp add: mirrorNameTableAddress_def applyHorizontalMirroring_def Let_def and_7FF)
qed

text \<open>
  Claim C7 at a failing input.  Under horizontal mirroring (no cartridge, or a
  cartridge reporting mode 0), on a PPU whose VRAM is all zero, a write of \<open>$AB\<close>
  to \<open>$2400\<close> is not seen at \<open>$2000\<close> (it is seen at \<open>$2800\<close>), and a write of
  \<open>$AB\<close> to \<open>$2C00\<close> is not seen at \<open>$2800\<close>.
\<close>

theorem horizontal_mirroring_misfolds:
  "fst (readNameTable idle_PPUCart (writeNameTable idle_PPUCart bare_PPU 0x2400 0xAB) 0x2000) = 0
   \<and> fst (readNameTable idle_PPUCart (writeNameTable idle_PPUCart bare_PPU 0x2400 0xAB) 0x2800)
       = 0xAB
   \<and> fst (readNameTable idle_PPUCart (writeNameTable idle_PPUCart bare_PPU 0x2C00 0xAB) 0x2800) = 0
   \<and> fst (readNameTable idle_PPUCart
            (writeNameTable idle_PPUCart (bare_PPU\<lparr>Cartridge := Some ()\<rparr>) 0x2400 0xAB) 0x2000)
       = 0"
  by (simp add: readNameTable_def writeNameTable_def mirrorNameTableAddress_def
      idle_PPUCart_def applyHorizontalMirroring_def bare_PPU_def PPU_Reset_def PPU_New_def
      Let_def)

section \<open>PPUDATA\<close>

text \<open>
  With \<open>v\<close> below \<open>$3F00\<close> a read returns the read buffer and refills it from
  \<open>v\<close>; with \<open>v\<close> in \<open>$3F00\<close>-\<open>$3FFF\<close> it returns the palette byte and refills
  the buffer from \<open>v - $1000\<close>; a read or a write then adds 1 or 32 to \<open>v\<close>.
\<close>

lemma readVRAM_frame:
  "reg_v (snd (readVRAM co q a)) = reg_v q \<and> PPUCTRL (snd (readVRAM co q a)) = PPUCTRL q"
  by (simp add: readVRAM_def readNameTable_def mirrorNameTableAddress_def Let_def split_def
      split: option.splits)

lemma writeVRAM_frame:
  "reg_v (writeVRAM co q a val) = reg_v q \<and> PPUCTRL (writeVRAM co q a val) = PPUCTRL q"
  by (simp add: writeVRAM_def writeNameTable_def mirrorNameTableAddress_def Let_def split_def
      split: option.splits)

lemma ppudata_read_buffered:
  assumes "reg_v p < 0x3F00"
  shows "PPU_ReadRegister co p 0x2007
           = (readBuffer p,
              vramIncrement ((snd (readVRAM co p (reg_v p)))
                               \<lparr>readBuffer := fst (readVRAM co p (reg_v p))\<rparr>))"
proof -
  have "\<not> 0x3F00 \<le> reg_v p" using assms by (simp add: not_le)
  then show ?thesis by (simp add: PPU_ReadRegister_def split_def Let_def)
qed

lemma readVRAM_palette:
  assumes "0x3F00 \<le> a" "a \<le> 0x3FFF"
  shows "readVRAM co p a = (ReadPalette (PaletteManager p) (ucast (a AND 0x1F)), p)"
proof -
  have u: "unat a < 16384" "16128 \<le> unat a"
    using assms by (simp_all add: word_le_nat_alt)
  have m: "a mod 0x4000 = a"
    apply (rule word_unat_eq_iff[THEN iffD2])
    using u by (simp add: unat_mod)
  have c: "\<not> a < 0x2000" "\<not> a < 0x3F00" "a < 0x4000"
    using u by (simp_all add: word_less_nat_alt)
  show ?thesis using m c by (simp add: readVRAM_def)
qed

lemma ppudata_read_palette:
  assumes "0x3F00 \<le> reg_v p" "reg_v p \<le> 0x3FFF"
  shows "fst (PPU_ReadRegister co p 0x2007)
           = ReadPalette (PaletteManager p) (ucast (reg_v p AND 0x1F))
       \<and> readBuffer (snd (PPU_ReadRegister co p 0x2007))
           = fst (readVRAM co p (reg_v p - 0x1000))"
  using assms
  by (simp add: PPU_ReadRegister_def split_def Let_def readVRAM_palette vramIncrement_def)

lemma ppudata_increment:
  "reg_v (snd (PPU_ReadRegister co p 0x2007))
     = reg_v p + (if PPUCTRL p AND 0x04 \<noteq> 0 then 32 else 1)"
  "reg_v (PPU_WriteRegister co p 0x2007 val)
     = reg_v p + (if PPUCTRL p AND 0x04 \<noteq> 0 then 32 else 1)"
proof -
  show "reg_v (snd (PPU_ReadRegister co p 0x2007))
     = reg_v p + (if PPUCTRL p AND 0x04 \<noteq> 0 then 32 else 1)"
    by (simp add: PPU_ReadRegister_def split_def Let_def vramIncrement_def readVRAM_frame)
  show "reg_v (PPU_WriteRegister co p 0x2007 val)
     = reg_v p + (if PPUCTRL p AND 0x04 \<noteq> 0 then 32 else 1)"
    by (simp add: PPU_WriteRegister_def vramIncrement_def writeVRAM_frame)
qed

lemma palette_aliases:
  "ReadPalette pm 0x10 = ReadPalette pm 0x00" "ReadPalette pm 0x14 = ReadPalette pm 0x04"
  "ReadPalette pm 0x18 = ReadPalette pm 0x08" "ReadPalette pm 0x1C = ReadPalette pm 0x0C"
  "WritePalette pm 0x10 val = WritePalette pm 0x00 val"
  "WritePalette pm 0x14 val = WritePalette pm 0x04 val"
  "WritePalette pm 0x18 val = WritePalette pm 0x08 val"
  "WritePalette pm 0x1C val = WritePalette pm 0x0C val"
  by (simp_all add: ReadPalette_def WritePalette_def paletteMirror_def)

text \<open>
  Claim C5 at a failing input.  On the bare PPU, after \<open>$55\<close> is stored at
  \<open>$2FFF\<close> and PPUADDR is set to \<open>$3FFF\<close>: the first PPUDATA read returns the
  palette byte \<open>$30\<close>, loads the buffer with \<open>$55\<close> and increments \<open>v\<close> to
  \<open>$4000\<close>.  The second read, of PPU address \<open>$0000\<close>, is not buffered: it
  returns 0, the pattern-table byte, and not the buffered \<open>$55\<close>.
\<close>

theorem ppudata_read_past_3FFF:
  "reg_v ppudata_wrap_setup = 0x3FFF
   \<and> fst (PPU_ReadRegister idle_PPUCart ppudata_wrap_setup 0x2007) = 0x30
   \<and> reg_v (snd (PPU_ReadRegister idle_PPUCart ppudata_wrap_setup 0x2007)) = 0x4000
   \<and> readBuffer (snd (PPU_ReadRegister idle_PPUCart ppudata_wrap_setup 0x2007)) = 0x55
   \<and> fst (PPU_ReadRegister idle_PPUCart
            (snd (PPU_ReadRegister idle_PPUCart ppudata_wrap_setup 0x2007)) 0x2007) = 0"
  by (simp add: ppudata_wrap_setup_def bare_PPU_def PPU_Reset_def PPU_New_def
      PPU_WriteRegister_def PPU_ReadRegister_def writeVRAM_def readVRAM_def readNameTable_def
      vramIncrement_def writeNameTable_def mirrorNameTableAddress_def
      applyHorizontalMirroring_def Let_def ReadPalette_def paletteMirror_def
      NewPaletteManager_def)

section \<open>The controller port\<close>











section \<open>OAM DMA\<close>

lemma u8_sub_step:
  fixes d :: u8
  shows "unat (d - 1) = (if d = 0 then 255 else unat d - 1)"
proof (cases "d = 0")
  case True
  have "unat (- 1 :: u8) = 255" by (simp add: unsigned_minus_1_eq_mask mask_eq_exp_minus_1)
  with True show ?thesis by simp
next
  case False
  then have "1 \<le> d" by (simp add: word_le_nat_alt unat_gt_0 Suc_le_eq)
  then show ?thesis using False by (simp add: unat_sub)
qed

lemma unat_m1_u8: "unat (- 1 :: u8) = 255"
  by (simp add: unsigned_minus_1_eq_mask mask_eq_exp_minus_1)

lemma OAMDMA_loop_pure:
  assumes pure: "\<And>q j. j < 256 \<Longrightarrow>
      Memory_Read (ppu_bus co dv) (m\<lparr>mem_PPU := Some q\<rparr>) (base + of_nat j)
        = (f j, m\<lparr>mem_PPU := Some q\<rparr>)"
  shows "i + n \<le> 256 \<Longrightarrow>
     OAMDMA_loop (ppu_bus co dv) base i n (m\<lparr>mem_PPU := Some p\<rparr>)
       = m\<lparr>mem_PPU := Some (p\<lparr>OAM := (\<lambda>a. if unat (a - OAMADDR p) < n
                                           then f (i + unat (a - OAMADDR p)) else OAM p a),
                                OAMADDR := OAMADDR p + of_nat n\<rparr>)\<rparr>"
proof (induction n arbitrary: i p)
  case 0
  then show ?case by simp
next
  case (Suc n)
  let ?p' = "p\<lparr>OAM := (OAM p)(OAMADDR p := f i), OAMADDR := OAMADDR p + 1\<rparr>"
  have i: "i < 256" using Suc.prems by simp
  have step: "OAMDMA_loop (ppu_bus co dv) base i (Suc n) (m\<lparr>mem_PPU := Some p\<rparr>)
        = OAMDMA_loop (ppu_bus co dv) base (Suc i) n (m\<lparr>mem_PPU := Some ?p'\<rparr>)"
    using pure[OF i, of p]
    by (simp add: ppu_bus_def PPU_WriteRegister_def)
  have IH: "OAMDMA_loop (ppu_bus co dv) base (Suc i) n (m\<lparr>mem_PPU := Some ?p'\<rparr>)
       = m\<lparr>mem_PPU := Some (?p'\<lparr>OAM := (\<lambda>a. if unat (a - OAMADDR ?p') < n
                                           then f (Suc i + unat (a - OAMADDR ?p')) else OAM ?p' a),
                                OAMADDR := OAMADDR ?p' + of_nat n\<rparr>)\<rparr>"
    by (rule Suc.IH) (use Suc.prems in simp)
  have n: "n \<le> 255" using Suc.prems by simp
  have fe: "(\<lambda>a. if unat (a - OAMADDR ?p') < n
                 then f (Suc i + unat (a - OAMADDR ?p')) else OAM ?p' a)
          = (\<lambda>a. if unat (a - OAMADDR p) < Suc n
                 then f (i + unat (a - OAMADDR p)) else OAM p a)"
  proof
    fix a
    let ?d = "a - OAMADDR p"
    have e: "a - (OAMADDR p + 1) = ?d - 1" by simp
    show "(if unat (a - OAMADDR ?p') < n
                 then f (Suc i + unat (a - OAMADDR ?p')) else OAM ?p' a)
          = (if unat (a - OAMADDR p) < Suc n
                 then f (i + unat (a - OAMADDR p)) else OAM p a)"
    proof (cases "?d = 0")
      case True
      then have a: "a = OAMADDR p" by simp
      show ?thesis using n a by (simp add: unat_m1_u8)
    next
      case False
      then have ne: "a \<noteq> OAMADDR p" by simp
      have pos: "0 < unat ?d" using False by (simp add: unat_gt_0)
      show ?thesis using False ne pos by (auto simp add: e u8_sub_step)
    qed
  qed
  show ?case
    unfolding step IH fe by (simp add: add.assoc)
qed

lemma page_addr:
  fixes page :: u8
  assumes "j < 256"
  shows "unat (push_bit 8 (ucast page :: u16) + of_nat j) = 256 * unat page + j"
proof -
  have p: "unat page < 256" using unsigned_less[of page, where 'a=nat] by simp
  have a: "unat (push_bit 8 (ucast page :: u16)) = 256 * unat page"
    using p by (simp add: push_bit_eq_mult unat_word_ariths unsigned_ucast_eq take_bit_nat_eq_self)
  have b: "unat (of_nat j :: u16) = j" using assms by (simp add: unat_of_nat)
  show ?thesis using a b p assms by (simp add: unat_word_ariths)
qed

lemma plain_page_read:
  assumes "plain_page (ppu_bus co dv) m page" "j < 256"
  shows "Memory_Read (ppu_bus co dv) (m\<lparr>mem_PPU := Some q\<rparr>) (push_bit 8 (ucast page) + of_nat j)
        = (fst (Memory_Read (ppu_bus co dv) m (push_bit 8 (ucast page) + of_nat j)), m\<lparr>mem_PPU := Some q\<rparr>)"
proof -
  let ?a = "push_bit 8 (ucast page :: u16) + of_nat j"
  note u = page_addr[OF assms(2), of page]
  show ?thesis
  proof (cases "page < 0x20")
    case True
    then have "unat page < 32" by (simp add: word_less_nat_alt)
    then have "?a < 0x2000" using u assms(2) by (simp add: word_less_nat_alt)
    then show ?thesis by (simp add: Memory_Read_def)
  next
    case False
    then have ge: "page \<ge> 0x60" using assms(1) by (simp add: plain_page_def)
    then have "96 \<le> unat page" by (simp add: word_le_nat_alt)
    then have a: "\<not> ?a < 0x2000" "?a \<ge> 0x6000"
      using u by (simp_all add: word_less_nat_alt word_le_nat_alt)
    show ?thesis
    proof (cases "mem_Cartridge m")
      case None
      then show ?thesis using a by (simp add: Memory_Read_def Let_def)
    next
      case (Some c)
      then have pure: "snd (cartReadPRG (ppu_bus co dv) c ?a) = c"
        using assms(1) False by (simp add: plain_page_def)
      have "m\<lparr>mem_PPU := Some q, mem_Cartridge := Some c\<rparr> = m\<lparr>mem_PPU := Some q\<rparr>"
        using Some by simp
      then show ?thesis using a Some pure by (simp add: Memory_Read_def split_def)
    qed
  qed
qed

lemma oam_dma_plain:
  assumes "mem_PPU m = Some p" and "plain_page (ppu_bus co dv) m page"
  shows "Memory_Write (ppu_bus co dv) m 0x4014 page
       = m\<lparr>mem_PPU := Some (p\<lparr>OAM := (\<lambda>a. fst (Memory_Read (ppu_bus co dv) m
                                 (push_bit 8 (ucast page) + of_nat (unat (a - OAMADDR p)))))\<rparr>)\<rparr>"
proof -
  have m: "m\<lparr>mem_PPU := Some p\<rparr> = m" using assms(1) by simp
  have "OAMDMA_loop (ppu_bus co dv) (push_bit 8 (ucast page)) 0 256 (m\<lparr>mem_PPU := Some p\<rparr>)
       = m\<lparr>mem_PPU := Some (p\<lparr>OAM := (\<lambda>a. if unat (a - OAMADDR p) < 256
              then fst (Memory_Read (ppu_bus co dv) m (push_bit 8 (ucast page) + of_nat (0 + unat (a - OAMADDR p))))
              else OAM p a),
           OAMADDR := OAMADDR p + of_nat 256\<rparr>)\<rparr>"
    by (rule OAMDMA_loop_pure[where f = "\<lambda>j. fst (Memory_Read (ppu_bus co dv) m (push_bit 8 (ucast page) + of_nat j))"])
       (simp_all add: plain_page_read[OF assms(2)])
  moreover have "\<And>a :: u8. unat (a - OAMADDR p) < 256"
    using unsigned_less[where 'a=nat and 'b=8] by simp
  moreover have "p\<lparr>OAM := g, OAMADDR := OAMADDR p\<rparr> = p\<lparr>OAM := g\<rparr>" for g by simp
  ultimately show ?thesis
    unfolding m by (simp add: Memory_Write_def performOAMDMA_def)
qed

lemma store_cycles:
  "executeInstruction dv c op = Some (n, c')
     \<Longrightarrow> 2 \<le> n \<and> n \<le> 6 \<and> (op \<noteq> 0xEA \<longrightarrow> 3 \<le> n) \<and> (op = 0x8D \<longrightarrow> n = 4)"
  by (auto simp add: executeInstruction_def execSTA_def execSTX_def execSTY_def execNOP_def
      getStoreCycles_def split_def Let_def split: if_splits)

text \<open>
  Claim C6, as the code has it.  On a bus with the PPU attached, a write of \<open>V\<close>
  to \<open>$4014\<close> changes only the PPU's OAM: for a page \<open>V\<close> of plain memory, OAM
  cell \<open>OAMADDR + i\<close> (modulo 256) receives the byte the bus reads at
  \<open>(V << 8) + i\<close>, for every \<open>i\<close> in 0..255, and OAMADDR ends where it
  started.  The write adds no stall: \<open>Memory.Write\<close> returns nothing, and each
  store instruction returns between 3 and 6 cycles whatever it writes (\<open>STA\<close>
  absolute, opcode \<open>$8D\<close>, returns 4), and \<open>NOP\<close> (\<open>$EA\<close>) returns 2.
\<close>

theorem oam_dma_transfer_without_stall:
  assumes "mem_PPU m = Some p" and "plain_page (ppu_bus co dv) m page"
  shows "(\<exists>oam. Memory_Write (ppu_bus co dv) m 0x4014 page = m\<lparr>mem_PPU := Some (p\<lparr>OAM := oam\<rparr>)\<rparr>
            \<and> (\<forall>i < 256. oam (OAMADDR p + of_nat i)
                   = fst (Memory_Read (ppu_bus co dv) m (push_bit 8 (ucast page) + of_nat i))))
       \<and> (\<forall>c op n c'. executeInstruction (ppu_bus co dv) c op = Some (n, c')
             \<longrightarrow> 2 \<le> n \<and> n \<le> 6 \<and> (op \<noteq> 0xEA \<longrightarrow> 3 \<le> n) \<and> (op = 0x8D \<longrightarrow> n = 4))"
proof (rule conjI)
  let ?oam = "\<lambda>a. fst (Memory_Read (ppu_bus co dv) m
                                 (push_bit 8 (ucast page) + of_nat (unat (a - OAMADDR p))))"
  have "\<And>i. i < 256 \<Longrightarrow> ?oam (OAMADDR p + of_nat i)
                   = fst (Memory_Read (ppu_bus co dv) m (push_bit 8 (ucast page) + of_nat i))"
    by (simp add: unat_of_nat)
  then show "\<exists>oam. Memory_Write (ppu_bus co dv) m 0x4014 page = m\<lparr>mem_PPU := Some (p\<lparr>OAM := oam\<rparr>)\<rparr>
            \<and> (\<forall>i < 256. oam (OAMADDR p + of_nat i)
                   = fst (Memory_Read (ppu_bus co dv) m (push_bit 8 (ucast page) + of_nat i)))"
    using oam_dma_plain[OF assms] by blast
next
  show "\<forall>c op n c'. executeInstruction (ppu_bus co dv) c op = Some (n, c')
             \<longrightarrow> 2 \<le> n \<and> n \<le> 6 \<and> (op \<noteq> 0xEA \<longrightarrow> 3 \<le> n) \<and> (op = 0x8D \<longrightarrow> n = 4)"
    using store_cycles by blast
qed

theorem oam_dma_transfer_without_stall_witness:
  "mem_PPU dma_mem = Some bare_PPU \<and> plain_page (ppu_bus idle_PPUCart idle_Devices) dma_mem 0x02
   \<and> (\<exists>oam. Memory_Write (ppu_bus idle_PPUCart idle_Devices) dma_mem 0x4014 0x02
               = dma_mem\<lparr>mem_PPU := Some (bare_PPU\<lparr>OAM := oam\<rparr>)\<rparr>
            \<and> oam 0 = 0xAB \<and> oam 1 = 0)"
proof -
  have h: "mem_PPU dma_mem = Some bare_PPU" "plain_page (ppu_bus idle_PPUCart idle_Devices) dma_mem 0x02"
    by (simp_all add: dma_mem_def Memory_New_def plain_page_def)
  from oam_dma_transfer_without_stall[OF h] obtain oam where
    w: "Memory_Write (ppu_bus idle_PPUCart idle_Devices) dma_mem 0x4014 0x02
               = dma_mem\<lparr>mem_PPU := Some (bare_PPU\<lparr>OAM := oam\<rparr>)\<rparr>"
    and o: "\<forall>i < 256. oam (OAMADDR bare_PPU + of_nat i)
                   = fst (Memory_Read (ppu_bus idle_PPUCart idle_Devices) dma_mem (push_bit 8 (ucast (0x02 :: u8)) + of_nat i))"
    by blast
  have a0: "OAMADDR bare_PPU = 0" by (simp add: bare_PPU_def PPU_Reset_def PPU_New_def)
  have "oam 0 = 0xAB" using o[THEN spec, of 0] a0
    by (simp add: Memory_Read_def dma_mem_def Memory_New_def)
  moreover have "oam 1 = 0" using o[THEN spec, of 1] a0
    by (simp add: Memory_Read_def dma_mem_def Memory_New_def)
  ultimately show ?thesis using h w by blast
qed

text \<open>
  The claim's cycle count at a concrete input: \<open>STA $4014\<close> returns 4 cycles, on
  an odd and on an even cycle count, not 513 or 514.
\<close>

theorem oam_dma_cycles_counterexample:
  "map_option fst (CPU_Step (ppu_bus idle_PPUCart idle_Devices) dma_cpu) = Some 4
   \<and> map_option fst (CPU_Step (ppu_bus idle_PPUCart idle_Devices) (dma_cpu\<lparr>cpu_Cycles := 0\<rparr>))
       = Some 4"
  by (simp add: CPU_Step_def dma_cpu_def dma_mem_def CPU_New_def Memory_New_def cpu_read_def
      Memory_Read_def executeInstruction_def execSTA_def getOperandAddress_def read16_def
      getStoreCycles_def getFlag_def FlagInterrupt_def FlagUnused_def Let_def split_def)

section \<open>Interrupt dispatch\<close>

text \<open>
  With no NMI pending, an asserted IRQ line with the I flag clear is dropped: the
  step is the step of the same CPU with the line released.
\<close>

lemma irq_dropped:
  "\<not> cpu_NMI c \<Longrightarrow> cpu_IRQ c \<Longrightarrow> \<not> getFlag c FlagInterrupt
     \<Longrightarrow> CPU_Step dv c = CPU_Step dv (c\<lparr>cpu_IRQ := False\<rparr>)"
  by (simp add: CPU_Step_def getFlag_def)

lemma nmi_serviced:
  "cpu_NMI c \<Longrightarrow> CPU_Step dv c = Some (7, (handleNMI dv c)\<lparr>cpu_NMI := False\<rparr>)"
  by (simp add: CPU_Step_def)

text \<open>
  Claim C1 at a failing input.  With the IRQ line asserted, the I flag clear and
  no NMI pending, \<open>Step\<close> executes the \<open>NOP\<close> at \<open>PC\<close> and returns 2 cycles:
  nothing is pushed, I stays clear, \<open>PC\<close> moves to \<open>$0201\<close> and the IRQ line is
  released.  \<open>handleIRQ\<close>, which \<open>Step\<close> does not call, would do what the claim
  says: push \<open>$02\<close>, \<open>$00\<close> and \<open>P = $20\<close>, set I, load \<open>PC = $8000\<close> from
  \<open>$FFFE\<close>.
\<close>

theorem irq_not_serviced:
  "cpu_IRQ irq_cpu \<and> \<not> getFlag irq_cpu FlagInterrupt \<and> \<not> cpu_NMI irq_cpu
   \<and> CPU_Step idle_Devices irq_cpu
       = Some (2, irq_cpu\<lparr>cpu_IRQ := False, cpu_PC := 0x0201, cpu_Cycles := 2\<rparr>)
   \<and> cpu_PC (handleIRQ idle_Devices irq_cpu) = 0x8000
   \<and> cpu_SP (handleIRQ idle_Devices irq_cpu) = 0xFA
   \<and> getFlag (handleIRQ idle_Devices irq_cpu) FlagInterrupt
   \<and> RAM (cpu_Memory (handleIRQ idle_Devices irq_cpu)) 0x1FD = 0x02
   \<and> RAM (cpu_Memory (handleIRQ idle_Devices irq_cpu)) 0x1FC = 0x00
   \<and> RAM (cpu_Memory (handleIRQ idle_Devices irq_cpu)) 0x1FB = 0x20"
  by (simp add: CPU_Step_def handleIRQ_def push16_def push_def cpu_write_def Memory_Write_def
      setFlag_def read16_def irq_cpu_def CPU_New_def Memory_New_def cpu_read_def
      Memory_Read_def executeInstruction_def execNOP_def getFlag_def FlagInterrupt_def
      Let_def split_def)

section \<open>The vertical-blank events of the dot clock\<close>

lemma readVRAM_timing [simp]: "timing (snd (readVRAM co p a)) = timing p"
  by (simp add: timing_def readVRAM_def readNameTable_def mirrorNameTableAddress_def Let_def split_def
      split: option.splits)

lemma fetchBG_timing [simp]:
  "timing (snd (fetchBackgroundTileWithScroll co p tx ty py)) = timing p"
  by (simp add: fetchBackgroundTileWithScroll_def Let_def split_def)

lemma isBGOpaque_timing [simp]: "timing (snd (isBackgroundPixelOpaque co p x y)) = timing p"
  by (simp add: isBackgroundPixelOpaque_def Let_def split_def)

lemma timing_bgTileCache [simp]: "timing (p\<lparr>bgTileCache := tc\<rparr>) = timing p"
  by (simp add: timing_def)

lemma renderBG_timing [simp]: "timing (snd (renderBackgroundPixelCached co p x y)) = timing p"
  by (simp add: renderBackgroundPixelCached_def Let_def split_def)

lemma status_or_keeps_vblank:
  "(s OR 0x20) AND 0x80 = s AND (0x80 :: u8)" "(s OR 0x40) AND 0x80 = s AND (0x80 :: u8)"
  by (simp_all add: bit.conj_disj_distrib2)

lemma fetchSpriteData_timing [simp]: "timing (snd (fetchSpriteData p sl)) = timing p"
  by (simp add: fetchSpriteData_def split_def Let_def timing_def status_or_keeps_vblank)

lemma spriteLoop_timing [simp]: "timing (snd (spriteLoop co x y h ss p)) = timing p"
  by (induction co x y h ss p rule: spriteLoop.induct) (simp_all add: Let_def)

lemma renderSpritePixel_timing [simp]: "timing (snd (renderSpritePixel co p x y ss)) = timing p"
  by (simp add: renderSpritePixel_def)

lemma putPixel_timing [simp]: "timing (putPixel p i c) = timing p"
  by (simp add: putPixel_def timing_def)

lemma timing_currentSprites [simp]: "timing (p\<lparr>currentSprites := ss\<rparr>) = timing p"
  by (simp add: timing_def)

lemma timing_sprite0 [simp]: "timing (p\<lparr>PPUSTATUS := PPUSTATUS p OR 0x40\<rparr>) = timing p"
  by (simp add: timing_def status_or_keeps_vblank)

lemma timing_FrameBuffer [simp]: "timing (p\<lparr>FrameBuffer := fb\<rparr>) = timing p"
  by (simp add: timing_def)

lemma handleMMC3_timing [simp]: "timing (handleMMC3A12Timing co p) = timing p"
  by (simp add: handleMMC3A12Timing_def Let_def timing_def split: option.splits)

lemma renderPixel_timing [simp]: "timing (renderPixel co p) = timing p"
  by (simp add: renderPixel_def Let_def split_def)

lemma timing_PaletteManager [simp]: "timing (p\<lparr>PaletteManager := pm\<rparr>) = timing p"
  by (simp add: timing_def)

lemma stepPreRender_frame [simp]:
  "timing (stepPreRender p) = timing p" "PPUSTATUS (stepPreRender p) = PPUSTATUS p"
  "FrameComplete (stepPreRender p) = FrameComplete p"
  by (simp_all add: stepPreRender_def timing_def Let_def)

lemma stepVisible_frame [simp]:
  "timing (stepVisible p) = timing p" "PPUSTATUS (stepVisible p) = PPUSTATUS p"
  "FrameComplete (stepVisible p) = FrameComplete p"
  by (simp_all add: stepVisible_def timing_def)

lemma timing_fields:
  "timing q = timing p \<Longrightarrow>
     Scanline q = Scanline p \<and> Cycle q = Cycle p \<and> PPUCTRL q = PPUCTRL p
     \<and> NMIRequested q = NMIRequested p \<and> PPUSTATUS q AND 0x80 = PPUSTATUS p AND 0x80"
  by (simp add: timing_def)

lemma handleFrameCompletion_frame [simp]:
  "PPUSTATUS (handleFrameCompletion p) = PPUSTATUS p"
  "Scanline (handleFrameCompletion p) = Scanline p"
  "Cycle (handleFrameCompletion p) = Cycle p"
  "NMIRequested (handleFrameCompletion p) = NMIRequested p"
  "FrameComplete (handleFrameCompletion p) = FrameComplete p"
  "PPUCTRL (handleFrameCompletion p) = PPUCTRL p"
  by (simp_all add: handleFrameCompletion_def Let_def)

lemma set_clear_test:
  "a \<noteq> b \<Longrightarrow> ((s OR 2 ^ a) AND NOT (2 ^ b)) AND 2 ^ a = (2 ^ a :: u8)"
  by (auto simp add: bit_eq_iff bit_simps)

lemma clear_test: "(s AND NOT (2 ^ a)) AND 2 ^ a = (0 :: u8)"
  by (auto simp add: bit_eq_iff bit_simps)

lemma vblank_bits:
  "((s OR 0x80) AND NOT 0x40) AND 0x80 = (0x80 :: u8)"
  "(s AND NOT 0x80) AND 0x80 = (0 :: u8)"
  using set_clear_test[of 7 6 s] clear_test[of s 7] by simp_all

lemma stepCounters_timing:
  "timing (stepCounters co q) =
     (if Cycle q + 1 \<ge> 341
      then (if Scanline q + 1 \<ge> 261 then -1 else Scanline q + 1, 0, PPUCTRL q,
            NMIRequested q \<or> (Scanline q + 1 = 241 \<and> PPUCTRL q AND 0x80 \<noteq> 0),
            if Scanline q + 1 = 241 then 0x80
            else if Scanline q + 1 \<ge> 261 then 0 else PPUSTATUS q AND 0x80)
      else (Scanline q, Cycle q + 1, PPUCTRL q, NMIRequested q, PPUSTATUS q AND 0x80))"
  using vblank_bits[of "PPUSTATUS q"]
  by (simp add: stepCounters_def timing_def Let_def split: option.splits)

lemma stepCounters_status:
  "PPUSTATUS (stepCounters co q) =
     (if Cycle q + 1 \<ge> 341
      then (if Scanline q + 1 = 241 then (PPUSTATUS q OR 0x80) AND NOT 0x40
            else if Scanline q + 1 \<ge> 261 then PPUSTATUS q AND NOT 0x80 else PPUSTATUS q)
      else PPUSTATUS q)"
  by (simp add: stepCounters_def Let_def split: option.splits)

lemma PPU_Step_timing:
  "timing (PPU_Step co p) =
     (if Cycle p + 1 \<ge> 341
      then (if Scanline p + 1 \<ge> 261 then -1 else Scanline p + 1, 0, PPUCTRL p,
            NMIRequested p \<or> (Scanline p + 1 = 241 \<and> PPUCTRL p AND 0x80 \<noteq> 0),
            if Scanline p + 1 = 241 then 0x80
            else if Scanline p + 1 \<ge> 261 then 0 else PPUSTATUS p AND 0x80)
      else (Scanline p, Cycle p + 1, PPUCTRL p, NMIRequested p, PPUSTATUS p AND 0x80))"
proof -
  define p0 where "p0 = p\<lparr>PaletteManager := SetEmphasis (PaletteManager p) (PPUMASK p AND 0xE0)\<rparr>"
  define p1 where "p1 = (if Scanline p0 \<ge> 0 \<and> Scanline p0 < 240
                         then handleMMC3A12Timing co (renderPixel co p0) else p0)"
  have t: "timing p1 = timing p" by (simp add: p1_def p0_def)
  have s: "PPU_Step co p = stepVisible (stepPreRender (stepCounters co p1))"
    by (simp add: PPU_Step_def p1_def p0_def Let_def)
  have "timing (PPU_Step co p) = timing (stepCounters co p1)" by (simp add: s)
  then show ?thesis
    using timing_fields[OF t] by (simp add: stepCounters_timing)
qed

lemma PPU_Step_status_blank:
  assumes "Scanline p \<ge> 240"
  shows "PPUSTATUS (PPU_Step co p) =
     (if Cycle p + 1 \<ge> 341
      then (if Scanline p + 1 = 241 then (PPUSTATUS p OR 0x80) AND NOT 0x40
            else if Scanline p + 1 \<ge> 261 then PPUSTATUS p AND NOT 0x80 else PPUSTATUS p)
      else PPUSTATUS p)"
  using assms by (simp add: PPU_Step_def Let_def stepCounters_status)

text \<open>
  Claim C3, as the code has it.  The events are tied to the wrap of the dot counter,
  not to dot 1.  The step that ends scanline 240 (dot 340) leaves the PPU at scanline
  241, dot 0, with the vertical-blank flag set and sprite-0 hit cleared, and requests
  an NMI if PPUCTRL bit 7 is set.  The step that ends scanline 260 leaves it at the
  pre-render scanline, numbered \<open>-1\<close>, dot 0, with the vertical-blank flag cleared and
  the other bits of PPUSTATUS, sprite overflow among them, as they were.  No other
  step of a frame changes the vertical-blank flag or requests an NMI.
\<close>

theorem vblank_events:
  assumes "-1 \<le> Scanline p" and "Scanline p \<le> 260" and "0 \<le> Cycle p" and "Cycle p \<le> 340"
  shows "Cycle (PPU_Step co p) = (if Cycle p = 340 then 0 else Cycle p + 1)
       \<and> Scanline (PPU_Step co p) =
           (if Cycle p = 340 then (if Scanline p = 260 then -1 else Scanline p + 1)
            else Scanline p)
       \<and> PPUSTATUS (PPU_Step co p) AND 0x80 =
           (if Scanline p = 240 \<and> Cycle p = 340 then 0x80
            else if Scanline p = 260 \<and> Cycle p = 340 then 0
            else PPUSTATUS p AND 0x80)
       \<and> NMIRequested (PPU_Step co p) =
           (NMIRequested p \<or> (Scanline p = 240 \<and> Cycle p = 340 \<and> PPUCTRL p AND 0x80 \<noteq> 0))
       \<and> (Scanline p = 240 \<and> Cycle p = 340 \<longrightarrow>
            PPUSTATUS (PPU_Step co p) = (PPUSTATUS p OR 0x80) AND NOT 0x40)
       \<and> (Scanline p = 260 \<and> Cycle p = 340 \<longrightarrow>
            PPUSTATUS (PPU_Step co p) = PPUSTATUS p AND NOT 0x80)"
proof -
  have c: "(Cycle p + 1 \<ge> 341) = (Cycle p = 340)"
    and s1: "(Scanline p + 1 \<ge> 261) = (Scanline p = 260)"
    and s2: "(Scanline p + 1 = 241) = (Scanline p = 240)"
    using assms by auto
  have t: "(Scanline (PPU_Step co p), Cycle (PPU_Step co p), PPUCTRL (PPU_Step co p),
            NMIRequested (PPU_Step co p), PPUSTATUS (PPU_Step co p) AND 0x80) =
     (if Cycle p = 340
      then (if Scanline p = 260 then -1 else Scanline p + 1, 0, PPUCTRL p,
            NMIRequested p \<or> (Scanline p = 240 \<and> PPUCTRL p AND 0x80 \<noteq> 0),
            if Scanline p = 240 then 0x80
            else if Scanline p = 260 then 0 else PPUSTATUS p AND 0x80)
      else (Scanline p, Cycle p + 1, PPUCTRL p, NMIRequested p, PPUSTATUS p AND 0x80))"
    using PPU_Step_timing[of co p] unfolding timing_def c s1 s2 .
  have pos: "Cycle (PPU_Step co p) = (if Cycle p = 340 then 0 else Cycle p + 1)"
    "Scanline (PPU_Step co p) =
           (if Cycle p = 340 then (if Scanline p = 260 then -1 else Scanline p + 1)
            else Scanline p)"
    using t by (simp_all split: if_splits)
  have vb: "PPUSTATUS (PPU_Step co p) AND 0x80 =
           (if Scanline p = 240 \<and> Cycle p = 340 then 0x80
            else if Scanline p = 260 \<and> Cycle p = 340 then 0
            else PPUSTATUS p AND 0x80)"
    using t by (simp split: if_splits)
  have nmi: "NMIRequested (PPU_Step co p) =
           (NMIRequested p \<or> (Scanline p = 240 \<and> Cycle p = 340 \<and> PPUCTRL p AND 0x80 \<noteq> 0))"
    using t by (simp split: if_splits)
  have a: "Scanline p = 240 \<and> Cycle p = 340 \<longrightarrow>
            PPUSTATUS (PPU_Step co p) = (PPUSTATUS p OR 0x80) AND NOT 0x40"
    using PPU_Step_status_blank[of p co] by simp
  have b: "Scanline p = 260 \<and> Cycle p = 340 \<longrightarrow>
            PPUSTATUS (PPU_Step co p) = PPUSTATUS p AND NOT 0x80"
    using PPU_Step_status_blank[of p co] by simp
  from pos vb nmi a b show ?thesis by blast
qed

theorem vblank_events_witness:
  "-1 \<le> Scanline vblank_eve \<and> Scanline vblank_eve \<le> 260
   \<and> 0 \<le> Cycle vblank_eve \<and> Cycle vblank_eve \<le> 340
   \<and> Scanline (PPU_Step idle_PPUCart vblank_eve) = 241
   \<and> Cycle (PPU_Step idle_PPUCart vblank_eve) = 0
   \<and> PPUSTATUS (PPU_Step idle_PPUCart vblank_eve) = 0x80
   \<and> NMIRequested (PPU_Step idle_PPUCart vblank_eve)"
proof -
  have h: "Scanline vblank_eve = 240" "Cycle vblank_eve = 340" "PPUCTRL vblank_eve = 0x80"
    "PPUSTATUS vblank_eve = 0x40"
    by (simp_all add: vblank_eve_def)
  have r: "-1 \<le> Scanline vblank_eve" "Scanline vblank_eve \<le> 260"
    "0 \<le> Cycle vblank_eve" "Cycle vblank_eve \<le> 340"
    by (simp_all add: h)
  from vblank_events[OF r, of idle_PPUCart] r show ?thesis by (simp add: h)
qed

theorem vblank_dot_counterexample:
  "Scanline (PPU_Step idle_PPUCart vblank_eve) = 241
   \<and> Cycle (PPU_Step idle_PPUCart vblank_eve) = 0
   \<and> PPUSTATUS (PPU_Step idle_PPUCart vblank_eve) = 0x80
   \<and> Scanline (PPU_Step idle_PPUCart (PPU_Step idle_PPUCart frame_end)) = -1
   \<and> Cycle (PPU_Step idle_PPUCart (PPU_Step idle_PPUCart frame_end)) = 1
   \<and> PPUSTATUS (PPU_Step idle_PPUCart (PPU_Step idle_PPUCart frame_end)) = 0x20"
  by (simp add: vblank_eve_def frame_end_def PPU_Step_def stepCounters_def stepPreRender_def
      stepVisible_def handleFrameCompletion_def renderingEnabled_def Let_def bare_PPU_def
      PPU_Reset_def PPU_New_def)

end
